theory Spec2Isabelle
  imports Complex_Main "HOL-Library.AList"
begin

section \<open>Mine closure costing: the calculation engine\<close>

text \<open>
  A shallow embedding of the calculation engine (module calcEngine) and of the input
  validation schema (module validation).

  Numbers. A TypeScript \<open>number\<close> that carries a cost, a rate, an area or a percentage is
  a \<^typ>\<open>real\<close>: the arithmetic is the exact one, so a statement "within rounding
  tolerance" of the engine becomes an equation here. A \<open>number\<close> that bounds a loop,
  indexes the yearly buckets or labels a year (the phase durations, the closure start year)
  is an \<^typ>\<open>int\<close>; the validation schema requires these to be integers.
  \<open>Math.round x\<close> is \<open>\<lfloor>x + 1/2\<rfloor>\<close>, \<open>Math.pow b i\<close> for a loop index \<open>i \<ge> 0\<close> is
  \<open>b ^ nat i\<close>.

  Division by the grand total. The percentages of the breakdowns and the monitoring cost
  share divide by a total that can be 0, where JavaScript gives \<open>NaN\<close> or an infinity
  and HOL gives \<open>x / 0 = 0\<close>. These quotients are therefore partial: \<open>quotient x y\<close> is
  \<open>None\<close> when \<open>y = 0\<close>, the three fields that hold such a percentage are of type
  \<^typ>\<open>real option\<close>, and \<open>None\<close> in them is a result that is not a finite number.
\<close>

subsection \<open>Domain types\<close>

datatype ClosurePhase =
    PlanningApprovals
  | DecommissioningDemolition
  | EarthworksLandform
  | TailingsWRDRehabilitation
  | WaterManagement
  | RevegetationEcosystem
  | MonitoringMaintenance
  | RelinquishmentPostClosure

definition CLOSURE_PHASES :: "ClosurePhase list" where
  "CLOSURE_PHASES =
     [PlanningApprovals, DecommissioningDemolition, EarthworksLandform,
      TailingsWRDRehabilitation, WaterManagement, RevegetationEcosystem,
      MonitoringMaintenance, RelinquishmentPostClosure]"

datatype CostCategory =
    Mobilisation
  | SiteEstablishment
  | Demolition
  | Earthworks
  | TSFClosure
  | WRDRehabilitation
  | WaterTreatmentCapex
  | WaterTreatmentOpex
  | Revegetation
  | ErosionControls
  | RoadRehabilitation
  | HazardousMaterials
  | Monitoring
  | CommunityHeritage
  | Contingency
  | RiskUplift
  | OwnersCosts
  | ContractorMargin

datatype MonitoringIntensity = Low | Medium | High

datatype DiscountRateMode = RealMode | NominalMode

type_synonym PhaseDurations = "ClosurePhase \<Rightarrow> int"

record DirectWorksQuantities =
  disturbedAreaHa :: real
  tsfAreaHa :: real
  tsfCoverThicknessM :: real
  wrdFootprintHa :: real
  wrdReshapingDepthM :: real
  earthworksVolumeM3Override :: "real option"
  topsoilThicknessM :: real
  recontouringAreaHa :: real
  roadLengthKm :: real
  numberOfBuildings :: real
  waterTreatmentFlowMLPerDay :: real
  waterTreatmentDurationYears :: real
  waterTreatmentIntensityFactor :: real
  monitoringDurationYears :: real
  monitoringIntensity :: MonitoringIntensity
  hazardousMaterialsEnabled :: bool
  hazardousMaterialsAreaHa :: real
  communityHeritageEnabled :: bool

record UnitRates =
  earthworksPerM3 :: real
  cappingBasePerM2 :: real
  cappingThicknessFactor :: real
  topsoilPerM3 :: real
  revegetationPerHa :: real
  revegetationComplexityFactor :: real
  demolitionPerBuilding :: real
  roadRehabPerKm :: real
  waterTreatmentCapex :: real
  waterTreatmentOpexPerML :: real
  monitoringPerYearLow :: real
  monitoringPerYearMedium :: real
  monitoringPerYearHigh :: real
  hazardousMaterialsPerHa :: real
  communityHeritageLumpSum :: real
  bulkingFactor :: real
  erosionControlsPerHa :: real
  mobilisationLumpSum :: real

record IndirectCostRates =
  siteEstablishmentPercent :: real
  contractorMarginPercent :: real
  contingencyPercent :: real
  ownersCostsPercent :: real

record RiskFactors =
  contaminationUncertainty :: real
  geotechUncertainty :: real
  waterQualityUncertainty :: real
  regulatoryUncertainty :: real
  logisticsComplexity :: real

record FinancialParams =
  closureStartYear :: int
  escalationRatePercent :: real
  discountRatePercent :: real
  discountRateMode :: DiscountRateMode

record InputState =
  quantities :: DirectWorksQuantities
  unitRates :: UnitRates
  indirectRates :: IndirectCostRates
  riskFactors :: RiskFactors
  financialParams :: FinancialParams
  phaseDurations :: PhaseDurations
  scenarioName :: string

record DerivedQuantities =
  tsfAreaM2 :: real
  wrdAreaM2 :: real
  tsfCappingVolumeM3 :: real
  wrdEarthworksVolumeM3 :: real
  totalEarthworksVolumeM3 :: real
  topsoilVolumeM3 :: real
  disturbedAreaM2 :: real
  recontouringAreaM2 :: real
  totalWaterTreatmentML :: real
  riskScore :: real
  riskUpliftPercent :: real

text \<open>
  A description is a string; the one template literal that prints a number,
  \<^verbatim>\<open>`Risk-based uplift (score: ${derived.riskScore})`\<close>, keeps the number between
  its two literal chunks.
\<close>

datatype Description = Text string | TextWithNumber string real string

record LineItemCost =
  category :: CostCategory
  description :: Description
  quantity :: real
  unit :: string
  unitRate :: real
  subtotal :: real
  phase :: ClosurePhase

record AnnualCashflow =
  year :: int
  nominalCost :: real
  escalatedCost :: real
  discountedCost :: real
  cumulativeNominal :: real
  cumulativeDiscounted :: real
  cf_phaseBreakdown :: "ClosurePhase \<Rightarrow> real"

record SensitivityResult =
  driverName :: string
  driverKey :: string
  baseValue :: real
  sr_unit :: string
  lowValue :: real
  highValue :: real
  lowTotalCost :: real
  highTotalCost :: real
  lowNPV :: real
  highNPV :: real
  deltaCost :: real
  deltaNPV :: real

record PhaseCostSummary =
  ps_phase :: ClosurePhase
  ps_totalCost :: real
  ps_percentOfTotal :: "real option"

record CategoryCostSummary =
  cs_category :: CostCategory
  cs_totalCost :: real
  cs_percentOfTotal :: "real option"

record Results =
  derivedQuantities :: DerivedQuantities
  lineItems :: "LineItemCost list"
  directWorksCost :: real
  indirectCosts :: real
  totalNominalCost :: real
  totalDiscountedCost :: real
  peakAnnualCashflow :: real
  peakCashflowYear :: int
  annualCashflows :: "AnnualCashflow list"
  phaseBreakdown :: "PhaseCostSummary list"
  categoryBreakdown :: "CategoryCostSummary list"
  sensitivityResults :: "SensitivityResult list"
  monitoringCostShare :: "real option"
  totalDurationYears :: int

subsection \<open>Unit conversions\<close>

definition haToM2 :: "real \<Rightarrow> real" where
  "haToM2 ha = ha * 10000"

definition m2ToHa :: "real \<Rightarrow> real" where
  "m2ToHa m2 = m2 / 10000"

subsection \<open>Risk scorer and derived quantities\<close>

definition mathRound :: "real \<Rightarrow> real" where
  "mathRound x = of_int \<lfloor>x + 1 / 2\<rfloor>"

definition calculateRiskScore :: "RiskFactors \<Rightarrow> real" where
  "calculateRiskScore factors =
     (let score =
            contaminationUncertainty factors * (25 / 100) +
            geotechUncertainty factors * (2 / 10) +
            waterQualityUncertainty factors * (25 / 100) +
            regulatoryUncertainty factors * (15 / 100) +
            logisticsComplexity factors * (15 / 100)
      in mathRound (score * 10) / 10)"

definition riskScoreToUplift :: "real \<Rightarrow> real" where
  "riskScoreToUplift rs =
     (if rs \<le> 20 then (rs / 20) * 5
      else if rs \<le> 40 then 5 + ((rs - 20) / 20) * 5
      else if rs \<le> 60 then 10 + ((rs - 40) / 20) * 10
      else if rs \<le> 80 then 20 + ((rs - 60) / 20) * 15
      else 35 + ((rs - 80) / 20) * 15)"

definition calculateDerivedQuantities :: "InputState \<Rightarrow> DerivedQuantities" where
  "calculateDerivedQuantities inputs =
     (let q = quantities inputs;
          u = unitRates inputs;
          tsfArea = haToM2 (tsfAreaHa q);
          wrdArea = haToM2 (wrdFootprintHa q);
          disturbedArea = haToM2 (disturbedAreaHa q);
          recontouringArea = haToM2 (recontouringAreaHa q);
          tsfCappingVolume = tsfArea * tsfCoverThicknessM q;
          wrdEarthworksVolume = wrdArea * wrdReshapingDepthM q * bulkingFactor u;
          totalEarthworksVolume =
            (case earthworksVolumeM3Override q of
               Some v \<Rightarrow> v
             | None \<Rightarrow> tsfCappingVolume + wrdEarthworksVolume);
          topsoilVolume = disturbedArea * topsoilThicknessM q;
          totalWaterTreatment =
            waterTreatmentFlowMLPerDay q * 365 * waterTreatmentDurationYears q;
          score = calculateRiskScore (riskFactors inputs);
          uplift = riskScoreToUplift score
      in \<lparr> tsfAreaM2 = tsfArea,
           wrdAreaM2 = wrdArea,
           tsfCappingVolumeM3 = tsfCappingVolume,
           wrdEarthworksVolumeM3 = wrdEarthworksVolume,
           totalEarthworksVolumeM3 = totalEarthworksVolume,
           topsoilVolumeM3 = topsoilVolume,
           disturbedAreaM2 = disturbedArea,
           recontouringAreaM2 = recontouringArea,
           totalWaterTreatmentML = totalWaterTreatment,
           riskScore = score,
           riskUpliftPercent = uplift \<rparr>)"

subsection \<open>Direct works line items\<close>

fun getMonitoringRate :: "MonitoringIntensity \<Rightarrow> real \<Rightarrow> real \<Rightarrow> real \<Rightarrow> real" where
  "getMonitoringRate Low lo med hi = lo"
| "getMonitoringRate Medium lo med hi = med"
| "getMonitoringRate High lo med hi = hi"

fun intensityName :: "MonitoringIntensity \<Rightarrow> string" where
  "intensityName Low = ''low''"
| "intensityName Medium = ''medium''"
| "intensityName High = ''high''"

text \<open>
  Each \<open>items.push\<close> under a condition is a conditional one-element list, appended in
  the order of the source. The units \<open>m\<^sup>3\<close> and \<open>m\<^sup>2\<close> are written in ASCII.
\<close>

definition calculateDirectWorksCosts ::
  "InputState \<Rightarrow> DerivedQuantities \<Rightarrow> LineItemCost list" where
  "calculateDirectWorksCosts inputs derived =
     (let q = quantities inputs; u = unitRates inputs in
      [\<lparr> category = Mobilisation,
          description = Text ''Site mobilisation and demobilisation'',
          quantity = 1, unit = ''lump sum'',
          unitRate = mobilisationLumpSum u,
          subtotal = mobilisationLumpSum u,
          phase = DecommissioningDemolition \<rparr>]
      @ (if numberOfBuildings q > 0 then
           [\<lparr> category = Demolition,
               description = Text ''Building and structure demolition'',
               quantity = numberOfBuildings q, unit = ''buildings'',
               unitRate = demolitionPerBuilding u,
               subtotal = numberOfBuildings q * demolitionPerBuilding u,
               phase = DecommissioningDemolition \<rparr>]
         else [])
      @ (if totalEarthworksVolumeM3 derived > 0 then
           [\<lparr> category = Earthworks,
               description = Text ''General earthworks (recontouring, reshaping)'',
               quantity = totalEarthworksVolumeM3 derived, unit = ''m^3'',
               unitRate = earthworksPerM3 u,
               subtotal = totalEarthworksVolumeM3 derived * earthworksPerM3 u,
               phase = EarthworksLandform \<rparr>]
         else [])
      @ (if topsoilVolumeM3 derived > 0 then
           [\<lparr> category = Earthworks,
               description = Text ''Topsoil placement'',
               quantity = topsoilVolumeM3 derived, unit = ''m^3'',
               unitRate = topsoilPerM3 u,
               subtotal = topsoilVolumeM3 derived * topsoilPerM3 u,
               phase = EarthworksLandform \<rparr>]
         else [])
      @ (if tsfAreaHa q > 0 then
           (let cappingCostPerM2 =
                  cappingBasePerM2 u * (tsfCoverThicknessM q * cappingThicknessFactor u)
            in [\<lparr> category = TSFClosure,
                   description = Text ''TSF capping and closure'',
                   quantity = tsfAreaM2 derived, unit = ''m^2'',
                   unitRate = cappingCostPerM2,
                   subtotal = tsfAreaM2 derived * cappingCostPerM2,
                   phase = TailingsWRDRehabilitation \<rparr>])
         else [])
      @ (if wrdFootprintHa q > 0 then
           (let wrdCostPerM2 =
                  cappingBasePerM2 u *
                  (wrdReshapingDepthM q * cappingThicknessFactor u * (5 / 10))
            in [\<lparr> category = WRDRehabilitation,
                   description = Text ''WRD reshaping and cover'',
                   quantity = wrdAreaM2 derived, unit = ''m^2'',
                   unitRate = wrdCostPerM2,
                   subtotal = wrdAreaM2 derived * wrdCostPerM2,
                   phase = TailingsWRDRehabilitation \<rparr>])
         else [])
      @ (if waterTreatmentDurationYears q > 0 \<and> waterTreatmentFlowMLPerDay q > 0 then
           (let capexAdjusted = waterTreatmentCapex u * waterTreatmentIntensityFactor q;
                annualOpex =
                  waterTreatmentFlowMLPerDay q * 365 * waterTreatmentOpexPerML u *
                  waterTreatmentIntensityFactor q
            in [\<lparr> category = WaterTreatmentCapex,
                   description = Text ''Water treatment plant (capex)'',
                   quantity = 1, unit = ''plant'',
                   unitRate = capexAdjusted,
                   subtotal = capexAdjusted,
                   phase = WaterManagement \<rparr>,
                \<lparr> category = WaterTreatmentOpex,
                   description = Text ''Water treatment operations (opex)'',
                   quantity = waterTreatmentDurationYears q, unit = ''years'',
                   unitRate = annualOpex,
                   subtotal = annualOpex * waterTreatmentDurationYears q,
                   phase = WaterManagement \<rparr>])
         else [])
      @ (if disturbedAreaHa q > 0 then
           (let revegRate = revegetationPerHa u * revegetationComplexityFactor u
            in [\<lparr> category = Revegetation,
                   description = Text ''Revegetation and ecosystem establishment'',
                   quantity = disturbedAreaHa q, unit = ''ha'',
                   unitRate = revegRate,
                   subtotal = disturbedAreaHa q * revegRate,
                   phase = RevegetationEcosystem \<rparr>])
         else [])
      @ (if disturbedAreaHa q > 0 then
           [\<lparr> category = ErosionControls,
               description = Text ''Erosion and sediment controls'',
               quantity = disturbedAreaHa q, unit = ''ha'',
               unitRate = erosionControlsPerHa u,
               subtotal = disturbedAreaHa q * erosionControlsPerHa u,
               phase = EarthworksLandform \<rparr>]
         else [])
      @ (if roadLengthKm q > 0 then
           [\<lparr> category = RoadRehabilitation,
               description = Text ''Road and access rehabilitation'',
               quantity = roadLengthKm q, unit = ''km'',
               unitRate = roadRehabPerKm u,
               subtotal = roadLengthKm q * roadRehabPerKm u,
               phase = EarthworksLandform \<rparr>]
         else [])
      @ (if hazardousMaterialsEnabled q \<and> hazardousMaterialsAreaHa q > 0 then
           [\<lparr> category = HazardousMaterials,
               description = Text ''Hazardous materials handling and disposal'',
               quantity = hazardousMaterialsAreaHa q, unit = ''ha'',
               unitRate = hazardousMaterialsPerHa u,
               subtotal = hazardousMaterialsAreaHa q * hazardousMaterialsPerHa u,
               phase = DecommissioningDemolition \<rparr>]
         else [])
      @ (let monitoringRate =
               getMonitoringRate (monitoringIntensity q) (monitoringPerYearLow u)
                 (monitoringPerYearMedium u) (monitoringPerYearHigh u)
         in [\<lparr> category = Monitoring,
                description =
                  Text (''Environmental monitoring ('' @
                        intensityName (monitoringIntensity q) @ '' intensity)''),
                quantity = monitoringDurationYears q, unit = ''years'',
                unitRate = monitoringRate,
                subtotal = monitoringDurationYears q * monitoringRate,
                phase = MonitoringMaintenance \<rparr>])
      @ (if communityHeritageEnabled q then
           [\<lparr> category = CommunityHeritage,
               description = Text ''Community and heritage management'',
               quantity = 1, unit = ''lump sum'',
               unitRate = communityHeritageLumpSum u,
               subtotal = communityHeritageLumpSum u,
               phase = PlanningApprovals \<rparr>]
         else []))"

subsection \<open>Indirect cost line items\<close>

definition calculateIndirectCosts ::
  "real \<Rightarrow> InputState \<Rightarrow> DerivedQuantities \<Rightarrow> LineItemCost list" where
  "calculateIndirectCosts directWorksTotal inputs derived =
     (let r = indirectRates inputs;
          siteEstCost = directWorksTotal * (siteEstablishmentPercent r / 100);
          subtotalForMargin = directWorksTotal + siteEstCost;
          contractorMargin = subtotalForMargin * (contractorMarginPercent r / 100);
          subtotalForContingency = directWorksTotal + siteEstCost + contractorMargin;
          contingency = subtotalForContingency * (contingencyPercent r / 100);
          riskUplift = subtotalForContingency * (riskUpliftPercent derived / 100);
          totalBeforeOwners =
            directWorksTotal + siteEstCost + contractorMargin + contingency + riskUplift;
          ownersCosts = totalBeforeOwners * (ownersCostsPercent r / 100)
      in [\<lparr> category = SiteEstablishment,
             description = Text ''Site establishment, HSE, and project management'',
             quantity = siteEstablishmentPercent r, unit = ''% of direct'',
             unitRate = directWorksTotal / 100,
             subtotal = siteEstCost,
             phase = PlanningApprovals \<rparr>,
          \<lparr> category = ContractorMargin,
             description = Text ''Contractor margin'',
             quantity = contractorMarginPercent r, unit = ''% of subtotal'',
             unitRate = subtotalForMargin / 100,
             subtotal = contractorMargin,
             phase = DecommissioningDemolition \<rparr>,
          \<lparr> category = Contingency,
             description = Text ''Base contingency'',
             quantity = contingencyPercent r, unit = ''% of subtotal'',
             unitRate = subtotalForContingency / 100,
             subtotal = contingency,
             phase = PlanningApprovals \<rparr>,
          \<lparr> category = RiskUplift,
             description = TextWithNumber ''Risk-based uplift (score: '' (riskScore derived) '')'',
             quantity = riskUpliftPercent derived, unit = ''% of subtotal'',
             unitRate = subtotalForContingency / 100,
             subtotal = riskUplift,
             phase = PlanningApprovals \<rparr>,
          \<lparr> category = OwnersCosts,
             description = Text ''Owner's costs and overheads'',
             quantity = ownersCostsPercent r, unit = ''% of total'',
             unitRate = totalBeforeOwners / 100,
             subtotal = ownersCosts,
             phase = PlanningApprovals \<rparr>])"

subsection \<open>Scheduling\<close>

definition calculateTotalDuration :: "PhaseDurations \<Rightarrow> int" where
  "calculateTotalDuration d =
     (let planningYears = d PlanningApprovals;
          decommYears = d DecommissioningDemolition;
          earthworksYears = d EarthworksLandform;
          tsfWrdYears = d TailingsWRDRehabilitation;
          waterYears = d WaterManagement;
          revegYears = d RevegetationEcosystem;
          monitoringYears = d MonitoringMaintenance;
          relinquishmentYears = d RelinquishmentPostClosure;
          activeWorks =
            planningYears + decommYears + max earthworksYears tsfWrdYears + revegYears;
          waterMonitoring = max waterYears monitoringYears
      in activeWorks + waterMonitoring + relinquishmentYears)"

fun getPhaseStartYear :: "ClosurePhase \<Rightarrow> PhaseDurations \<Rightarrow> int" where
  "getPhaseStartYear PlanningApprovals d = 0"
| "getPhaseStartYear DecommissioningDemolition d = d PlanningApprovals"
| "getPhaseStartYear EarthworksLandform d =
     d PlanningApprovals + d DecommissioningDemolition"
| "getPhaseStartYear TailingsWRDRehabilitation d =
     d PlanningApprovals + d DecommissioningDemolition"
| "getPhaseStartYear WaterManagement d =
     d PlanningApprovals + d DecommissioningDemolition"
| "getPhaseStartYear RevegetationEcosystem d =
     d PlanningApprovals + d DecommissioningDemolition +
     max (d EarthworksLandform) (d TailingsWRDRehabilitation)"
| "getPhaseStartYear MonitoringMaintenance d =
     d PlanningApprovals + d DecommissioningDemolition +
     max (d EarthworksLandform) (d TailingsWRDRehabilitation) +
     d RevegetationEcosystem"
| "getPhaseStartYear RelinquishmentPostClosure d =
     d PlanningApprovals + d DecommissioningDemolition +
     max (d EarthworksLandform) (d TailingsWRDRehabilitation) +
     d RevegetationEcosystem +
     max (d WaterManagement) (d MonitoringMaintenance)"

subsection \<open>Cashflow\<close>

text \<open>
  \<open>yearlyPhaseBreakdown\<close> is the array of yearly buckets, one record of eight numbers per
  year; every bucket is created with all eight phases set to 0. Reading the array outside
  its bounds gives \<open>undefined\<close> in the source, which the two guards test for:
  \<open>hasBucket\<close> is that test.
\<close>

type_synonym PhaseBreakdown = "ClosurePhase \<Rightarrow> real"

definition sumSubtotals :: "LineItemCost list \<Rightarrow> real" where
  "sumSubtotals items = foldl (\<lambda>s item. s + subtotal item) 0 items"

definition initBreakdowns :: "int \<Rightarrow> PhaseBreakdown list" where
  "initBreakdowns totalDuration = map (\<lambda>i. (\<lambda>p. 0)) [0..totalDuration]"

definition hasBucket :: "PhaseBreakdown list \<Rightarrow> int \<Rightarrow> bool" where
  "hasBucket ypb y = (0 \<le> y \<and> nat y < length ypb)"

definition addToBucket ::
  "PhaseBreakdown list \<Rightarrow> int \<Rightarrow> ClosurePhase \<Rightarrow> real \<Rightarrow> PhaseBreakdown list" where
  "addToBucket ypb y p amount =
     ypb[nat y := (ypb ! nat y)(p := (ypb ! nat y) p + amount)]"

definition sumPhases :: "PhaseBreakdown \<Rightarrow> real" where
  "sumPhases pb = foldl (\<lambda>s p. s + pb p) 0 CLOSURE_PHASES"

definition allocateItem ::
  "PhaseDurations \<Rightarrow> int \<Rightarrow> PhaseBreakdown list \<Rightarrow> LineItemCost \<Rightarrow> PhaseBreakdown list"
  where
  "allocateItem durations totalDuration ypb item =
     (let phaseStart = getPhaseStartYear (phase item) durations;
          phaseDuration = durations (phase item)
      in if phaseDuration > 0 then
           (let annualCost = subtotal item / of_int phaseDuration
            in foldl (\<lambda>b y. let yr = phaseStart + y
                             in if yr \<le> totalDuration \<and> hasBucket b yr
                                then addToBucket b yr (phase item) annualCost
                                else b)
                 ypb [0..phaseDuration - 1])
         else if hasBucket ypb phaseStart then
           addToBucket ypb phaseStart (phase item) (subtotal item)
         else ypb)"

fun buildCashflows ::
  "int \<Rightarrow> real \<Rightarrow> real \<Rightarrow> PhaseBreakdown list \<Rightarrow> real \<Rightarrow> real \<Rightarrow> int list
     \<Rightarrow> AnnualCashflow list" where
  "buildCashflows startYear esc disc ypb cumN cumD [] = []"
| "buildCashflows startYear esc disc ypb cumN cumD (i # rest) =
     (if \<not> hasBucket ypb i then buildCashflows startYear esc disc ypb cumN cumD rest
      else
        (let pb = ypb ! nat i;
             nominal = sumPhases pb;
             escalated = nominal * (1 + esc) ^ nat i;
             discounted = escalated / (1 + disc) ^ nat i;
             cumN' = cumN + nominal;
             cumD' = cumD + discounted
         in \<lparr> year = startYear + i,
              nominalCost = nominal,
              escalatedCost = escalated,
              discountedCost = discounted,
              cumulativeNominal = cumN',
              cumulativeDiscounted = cumD',
              cf_phaseBreakdown = pb \<rparr>
            # buildCashflows startYear esc disc ypb cumN' cumD' rest))"

definition calculateAnnualCashflows ::
  "LineItemCost list \<Rightarrow> InputState \<Rightarrow> AnnualCashflow list" where
  "calculateAnnualCashflows items inputs =
     (let fp = financialParams inputs;
          durations = phaseDurations inputs;
          totalDuration = calculateTotalDuration durations;
          ypb = foldl (allocateItem durations totalDuration)
                  (initBreakdowns totalDuration) items;
          escalationRate = escalationRatePercent fp / 100;
          discountRate = discountRatePercent fp / 100;
          effectiveDiscountRate =
            (if discountRateMode fp = NominalMode then discountRate else discountRate)
      in buildCashflows (closureStartYear fp) escalationRate effectiveDiscountRate
           ypb 0 0 [0..totalDuration])"

subsection \<open>Breakdown summaries\<close>

text \<open>
  A JavaScript \<open>Map\<close> keeps its keys in the order of their first insertion:
  an association list, updated in place by \<^const>\<open>AList.update\<close>. \<open>mapGet\<close> is
  \<^verbatim>\<open>m.get(k) ?? 0\<close>. \<open>Array.prototype.sort\<close> is stable, as is \<^const>\<open>sort_key\<close>;
  sorting by the comparator \<^verbatim>\<open>(a, b) => b.k - a.k\<close> is sorting by the key \<open>- k\<close>.
\<close>

definition mapGet :: "('k \<times> real) list \<Rightarrow> 'k \<Rightarrow> real" where
  "mapGet m k = (case map_of m k of None \<Rightarrow> 0 | Some v \<Rightarrow> v)"

text \<open>
  \<open>quotient x y\<close> is \<^verbatim>\<open>x / y\<close> where the divisor may be 0: no finite number then.
  \<open>percentOf x y\<close> is \<^verbatim>\<open>(x / y) * 100\<close>; a product with \<open>NaN\<close> or an infinity is
  again not a finite number.
\<close>

definition quotient :: "real \<Rightarrow> real \<Rightarrow> real option" where
  "quotient x y = (if y = 0 then None else Some (x / y))"

definition percentOf :: "real \<Rightarrow> real \<Rightarrow> real option" where
  "percentOf x y = map_option (\<lambda>q. q * 100) (quotient x y)"

definition calculatePhaseBreakdown ::
  "LineItemCost list \<Rightarrow> real \<Rightarrow> PhaseCostSummary list" where
  "calculatePhaseBreakdown items totalCost =
     (let phaseTotals0 = foldl (\<lambda>m p. AList.update p 0 m) [] CLOSURE_PHASES;
          phaseTotals =
            foldl (\<lambda>m item. AList.update (phase item) (mapGet m (phase item) + subtotal item) m)
              phaseTotals0 items
      in map (\<lambda>p. \<lparr> ps_phase = p,
                     ps_totalCost = mapGet phaseTotals p,
                     ps_percentOfTotal =
                       (if totalCost > 0 then percentOf (mapGet phaseTotals p) totalCost
                        else Some 0) \<rparr>)
           CLOSURE_PHASES)"

definition calculateCategoryBreakdown ::
  "LineItemCost list \<Rightarrow> real \<Rightarrow> CategoryCostSummary list" where
  "calculateCategoryBreakdown items totalCost =
     (let categoryTotals =
            foldl (\<lambda>m item.
                     AList.update (category item) (mapGet m (category item) + subtotal item) m)
              [] items;
          summaries =
            concat (map (\<lambda>(c, cost).
                           if cost > 0 then
                             [\<lparr> cs_category = c,
                                cs_totalCost = cost,
                                cs_percentOfTotal =
                                  (if totalCost > 0 then percentOf cost totalCost
                                   else Some 0) \<rparr>]
                           else [])
                      categoryTotals)
      in sort_key (\<lambda>s. - cs_totalCost s) summaries)"

subsection \<open>Sensitivity analysis\<close>

record SensitivityDriver =
  d_name :: string
  d_key :: string
  getValue :: "InputState \<Rightarrow> real"
  setValue :: "InputState \<Rightarrow> real \<Rightarrow> InputState"
  d_unit :: string

definition SENSITIVITY_DRIVERS :: "SensitivityDriver list" where
  "SENSITIVITY_DRIVERS =
     [\<lparr> d_name = ''Disturbed Area'', d_key = ''disturbedArea'',
         getValue = (\<lambda>i. disturbedAreaHa (quantities i)),
         setValue = (\<lambda>i v. i\<lparr>quantities := (quantities i)\<lparr>disturbedAreaHa := v\<rparr>\<rparr>),
         d_unit = ''ha'' \<rparr>,
      \<lparr> d_name = ''Earthworks Rate'', d_key = ''earthworksRate'',
         getValue = (\<lambda>i. earthworksPerM3 (unitRates i)),
         setValue = (\<lambda>i v. i\<lparr>unitRates := (unitRates i)\<lparr>earthworksPerM3 := v\<rparr>\<rparr>),
         d_unit = ''$/m^3'' \<rparr>,
      \<lparr> d_name = ''TSF Area'', d_key = ''tsfArea'',
         getValue = (\<lambda>i. tsfAreaHa (quantities i)),
         setValue = (\<lambda>i v. i\<lparr>quantities := (quantities i)\<lparr>tsfAreaHa := v\<rparr>\<rparr>),
         d_unit = ''ha'' \<rparr>,
      \<lparr> d_name = ''TSF Cover Thickness'', d_key = ''tsfThickness'',
         getValue = (\<lambda>i. tsfCoverThicknessM (quantities i)),
         setValue = (\<lambda>i v. i\<lparr>quantities := (quantities i)\<lparr>tsfCoverThicknessM := v\<rparr>\<rparr>),
         d_unit = ''m'' \<rparr>,
      \<lparr> d_name = ''Water Treatment Duration'', d_key = ''waterDuration'',
         getValue = (\<lambda>i. waterTreatmentDurationYears (quantities i)),
         setValue =
           (\<lambda>i v. i\<lparr>quantities := (quantities i)\<lparr>waterTreatmentDurationYears := v\<rparr>\<rparr>),
         d_unit = ''years'' \<rparr>,
      \<lparr> d_name = ''Contingency %'', d_key = ''contingency'',
         getValue = (\<lambda>i. contingencyPercent (indirectRates i)),
         setValue = (\<lambda>i v. i\<lparr>indirectRates := (indirectRates i)\<lparr>contingencyPercent := v\<rparr>\<rparr>),
         d_unit = ''%'' \<rparr>,
      \<lparr> d_name = ''Discount Rate'', d_key = ''discountRate'',
         getValue = (\<lambda>i. discountRatePercent (financialParams i)),
         setValue =
           (\<lambda>i v. i\<lparr>financialParams := (financialParams i)\<lparr>discountRatePercent := v\<rparr>\<rparr>),
         d_unit = ''%'' \<rparr>,
      \<lparr> d_name = ''Revegetation Rate'', d_key = ''revegRate'',
         getValue = (\<lambda>i. revegetationPerHa (unitRates i)),
         setValue = (\<lambda>i v. i\<lparr>unitRates := (unitRates i)\<lparr>revegetationPerHa := v\<rparr>\<rparr>),
         d_unit = ''$/ha'' \<rparr>]"

text \<open>
  \<open>lastElement xs\<close> is \<^verbatim>\<open>xs[xs.length - 1]\<close>: \<open>undefined\<close> on the empty array.
\<close>

definition lastElement :: "'a list \<Rightarrow> 'a option" where
  "lastElement xs = (if xs = [] then None else Some (last xs))"

record SensitivityTotals =
  st_total :: real
  st_npv :: real

definition calculateTotalForSensitivity :: "InputState \<Rightarrow> SensitivityTotals" where
  "calculateTotalForSensitivity inputs =
     (let derived = calculateDerivedQuantities inputs;
          directItems = calculateDirectWorksCosts inputs derived;
          directTotal = sumSubtotals directItems;
          indirectItems = calculateIndirectCosts directTotal inputs derived;
          allItems = directItems @ indirectItems;
          tot = sumSubtotals allItems;
          cashflows = calculateAnnualCashflows allItems inputs;
          n = (if length cashflows > 0 then
                 (case lastElement cashflows of
                    None \<Rightarrow> 0
                  | Some c \<Rightarrow> cumulativeDiscounted c)
               else 0)
      in \<lparr> st_total = tot, st_npv = n \<rparr>)"

text \<open>
  The base-case run at the head of \<open>calculateSensitivity\<close> is computed and discarded by
  the source; it has no effect and is left out. \<open>driverResult\<close> is the body of the
  loop over the drivers: the empty list when the driver is skipped by \<open>continue\<close>, the
  one pushed result otherwise.
\<close>

definition driverResult ::
  "InputState \<Rightarrow> real \<Rightarrow> SensitivityDriver \<Rightarrow> SensitivityResult list" where
  "driverResult inputs variationPercent driver =
     (let base = getValue driver inputs
      in if base = 0 then []
         else
           (let lowV = base * (1 - variationPercent / 100);
                highV = base * (1 + variationPercent / 100);
                lowInputs = setValue driver inputs lowV;
                highInputs = setValue driver inputs highV;
                lowResults = calculateTotalForSensitivity lowInputs;
                highResults = calculateTotalForSensitivity highInputs
            in [\<lparr> driverName = d_name driver,
                   driverKey = d_key driver,
                   baseValue = base,
                   sr_unit = d_unit driver,
                   lowValue = lowV,
                   highValue = highV,
                   lowTotalCost = st_total lowResults,
                   highTotalCost = st_total highResults,
                   lowNPV = st_npv lowResults,
                   highNPV = st_npv highResults,
                   deltaCost = st_total highResults - st_total lowResults,
                   deltaNPV = st_npv highResults - st_npv lowResults \<rparr>]))"

definition calculateSensitivity :: "InputState \<Rightarrow> real \<Rightarrow> SensitivityResult list" where
  "calculateSensitivity inputs variationPercent =
     (let results = concat (map (driverResult inputs variationPercent) SENSITIVITY_DRIVERS)
      in sort_key (\<lambda>r. - \<bar>deltaCost r\<bar>) results)"

subsection \<open>Main entry point\<close>

definition findPeak :: "int \<Rightarrow> AnnualCashflow list \<Rightarrow> real \<times> int" where
  "findPeak startYear cashflows =
     foldl (\<lambda>(peak, peakYear) cf.
              if nominalCost cf > peak then (nominalCost cf, year cf) else (peak, peakYear))
       (0, startYear) cashflows"

definition calculateClosureCosts :: "InputState \<Rightarrow> Results" where
  "calculateClosureCosts inputs =
     (let derived = calculateDerivedQuantities inputs;
          directItems = calculateDirectWorksCosts inputs derived;
          directWorks = sumSubtotals directItems;
          indirectItems = calculateIndirectCosts directWorks inputs derived;
          indirect = sumSubtotals indirectItems;
          items = directItems @ indirectItems;
          totalNominal = directWorks + indirect;
          cashflows = calculateAnnualCashflows items inputs;
          totalDiscounted =
            (case lastElement cashflows of
               None \<Rightarrow> 0
             | Some c \<Rightarrow> cumulativeDiscounted c);
          peak = findPeak (closureStartYear (financialParams inputs)) cashflows;
          phases = calculatePhaseBreakdown items totalNominal;
          categories = calculateCategoryBreakdown items totalNominal;
          sensitivity = calculateSensitivity inputs 10;
          monitoringCost = sumSubtotals (filter (\<lambda>item. category item = Monitoring) items);
          monitoringShare =
            (if totalNominal > 0 then percentOf monitoringCost totalNominal else Some 0);
          totalDuration = calculateTotalDuration (phaseDurations inputs)
      in \<lparr> derivedQuantities = derived,
           lineItems = items,
           directWorksCost = directWorks,
           indirectCosts = indirect,
           totalNominalCost = totalNominal,
           totalDiscountedCost = totalDiscounted,
           peakAnnualCashflow = fst peak,
           peakCashflowYear = snd peak,
           annualCashflows = cashflows,
           phaseBreakdown = phases,
           categoryBreakdown = categories,
           sensitivityResults = sensitivity,
           monitoringCostShare = monitoringShare,
           totalDurationYears = totalDuration \<rparr>)"

subsection \<open>The validation schema\<close>

text \<open>
  The engine is specified on validated input. \<open>InputStateSchema\<close> is the Zod schema of
  the validation module: \<open>between lo hi\<close> is \<^verbatim>\<open>z.number().min(lo).max(hi)\<close> and
  \<open>isInt\<close> is \<^verbatim>\<open>.int()\<close>.
\<close>

definition between :: "real \<Rightarrow> real \<Rightarrow> real \<Rightarrow> bool" where
  "between lo hi x = (lo \<le> x \<and> x \<le> hi)"

definition isInt :: "real \<Rightarrow> bool" where
  "isInt x = (of_int \<lfloor>x\<rfloor> = x)"

definition DirectWorksQuantitiesSchema :: "DirectWorksQuantities \<Rightarrow> bool" where
  "DirectWorksQuantitiesSchema q =
     (between 0 100000 (disturbedAreaHa q) \<and>
      between 0 10000 (tsfAreaHa q) \<and>
      between 0 5 (tsfCoverThicknessM q) \<and>
      between 0 50000 (wrdFootprintHa q) \<and>
      between 0 20 (wrdReshapingDepthM q) \<and>
      between 0 2 (topsoilThicknessM q) \<and>
      between 0 100000 (recontouringAreaHa q) \<and>
      between 0 500 (roadLengthKm q) \<and>
      isInt (numberOfBuildings q) \<and> between 0 500 (numberOfBuildings q) \<and>
      between 0 100 (waterTreatmentFlowMLPerDay q) \<and>
      between 0 100 (waterTreatmentDurationYears q) \<and>
      between (5 / 10) 3 (waterTreatmentIntensityFactor q) \<and>
      isInt (monitoringDurationYears q) \<and> between 1 100 (monitoringDurationYears q) \<and>
      between 0 1000 (hazardousMaterialsAreaHa q))"

definition UnitRatesSchema :: "UnitRates \<Rightarrow> bool" where
  "UnitRatesSchema u =
     (between 0 100 (earthworksPerM3 u) \<and>
      between 0 500 (cappingBasePerM2 u) \<and>
      between (5 / 10) 3 (cappingThicknessFactor u) \<and>
      between 0 100 (topsoilPerM3 u) \<and>
      between 0 100000 (revegetationPerHa u) \<and>
      between (5 / 10) 3 (revegetationComplexityFactor u) \<and>
      between 0 5000000 (demolitionPerBuilding u) \<and>
      between 0 1000000 (roadRehabPerKm u) \<and>
      between 0 500000000 (waterTreatmentCapex u) \<and>
      between 0 10000 (waterTreatmentOpexPerML u) \<and>
      between 0 5000000 (monitoringPerYearLow u) \<and>
      between 0 10000000 (monitoringPerYearMedium u) \<and>
      between 0 20000000 (monitoringPerYearHigh u) \<and>
      between 0 1000000 (hazardousMaterialsPerHa u) \<and>
      between 0 50000000 (communityHeritageLumpSum u) \<and>
      between 1 2 (bulkingFactor u) \<and>
      between 0 50000 (erosionControlsPerHa u) \<and>
      between 0 50000000 (mobilisationLumpSum u))"

definition IndirectCostRatesSchema :: "IndirectCostRates \<Rightarrow> bool" where
  "IndirectCostRatesSchema r =
     (between 0 100 (siteEstablishmentPercent r) \<and>
      between 0 100 (contractorMarginPercent r) \<and>
      between 0 100 (contingencyPercent r) \<and>
      between 0 100 (ownersCostsPercent r))"

definition RiskFactorsSchema :: "RiskFactors \<Rightarrow> bool" where
  "RiskFactorsSchema f =
     (between 0 100 (contaminationUncertainty f) \<and>
      between 0 100 (geotechUncertainty f) \<and>
      between 0 100 (waterQualityUncertainty f) \<and>
      between 0 100 (regulatoryUncertainty f) \<and>
      between 0 100 (logisticsComplexity f))"

definition FinancialParamsSchema :: "FinancialParams \<Rightarrow> bool" where
  "FinancialParamsSchema fp =
     (2020 \<le> closureStartYear fp \<and> closureStartYear fp \<le> 2100 \<and>
      between 0 20 (escalationRatePercent fp) \<and>
      between 0 30 (discountRatePercent fp))"

definition PhaseDurationsSchema :: "PhaseDurations \<Rightarrow> bool" where
  "PhaseDurationsSchema d =
     (0 \<le> d PlanningApprovals \<and> d PlanningApprovals \<le> 10 \<and>
      0 \<le> d DecommissioningDemolition \<and> d DecommissioningDemolition \<le> 10 \<and>
      0 \<le> d EarthworksLandform \<and> d EarthworksLandform \<le> 20 \<and>
      0 \<le> d TailingsWRDRehabilitation \<and> d TailingsWRDRehabilitation \<le> 20 \<and>
      0 \<le> d WaterManagement \<and> d WaterManagement \<le> 50 \<and>
      0 \<le> d RevegetationEcosystem \<and> d RevegetationEcosystem \<le> 20 \<and>
      0 \<le> d MonitoringMaintenance \<and> d MonitoringMaintenance \<le> 100 \<and>
      0 \<le> d RelinquishmentPostClosure \<and> d RelinquishmentPostClosure \<le> 10)"

definition InputStateSchema :: "InputState \<Rightarrow> bool" where
  "InputStateSchema i =
     (DirectWorksQuantitiesSchema (quantities i) \<and>
      UnitRatesSchema (unitRates i) \<and>
      IndirectCostRatesSchema (indirectRates i) \<and>
      RiskFactorsSchema (riskFactors i) \<and>
      FinancialParamsSchema (financialParams i) \<and>
      PhaseDurationsSchema (phaseDurations i) \<and>
      1 \<le> length (scenarioName i) \<and> length (scenarioName i) \<le> 100)"

subsection \<open>Inputs used in the statements\<close>

text \<open>
  \<open>withDiscountRateMode\<close>, \<open>withDiscountRatePercent\<close>, \<open>withEscalationRatePercent\<close> and
  \<open>withPhaseDurations\<close> change one input and hold every other input fixed.
  \<open>exampleInputs\<close> is a small valid site: 10 ha of disturbed area, a mobilisation lump
  sum, one year of monitoring, and a schedule of four one-year phases. \<open>freeInputs\<close> is
  the same site with every unit rate it uses set to 0, so that its total cost is 0.
  \<open>sampleItem\<close> is one line item of cost 5.
\<close>

definition withDiscountRateMode :: "DiscountRateMode \<Rightarrow> InputState \<Rightarrow> InputState" where
  "withDiscountRateMode m i =
     i\<lparr>financialParams := (financialParams i)\<lparr>discountRateMode := m\<rparr>\<rparr>"

definition exampleInputs :: InputState where
  "exampleInputs =
     \<lparr> quantities =
         \<lparr> disturbedAreaHa = 10, tsfAreaHa = 0, tsfCoverThicknessM = 0,
            wrdFootprintHa = 0, wrdReshapingDepthM = 0,
            earthworksVolumeM3Override = None, topsoilThicknessM = 0,
            recontouringAreaHa = 0, roadLengthKm = 0, numberOfBuildings = 0,
            waterTreatmentFlowMLPerDay = 0, waterTreatmentDurationYears = 0,
            waterTreatmentIntensityFactor = 1, monitoringDurationYears = 1,
            monitoringIntensity = Low, hazardousMaterialsEnabled = False,
            hazardousMaterialsAreaHa = 0, communityHeritageEnabled = False \<rparr>,
       unitRates =
         \<lparr> earthworksPerM3 = 10, cappingBasePerM2 = 0, cappingThicknessFactor = 1,
            topsoilPerM3 = 0, revegetationPerHa = 100, revegetationComplexityFactor = 1,
            demolitionPerBuilding = 0, roadRehabPerKm = 0, waterTreatmentCapex = 0,
            waterTreatmentOpexPerML = 0, monitoringPerYearLow = 1000,
            monitoringPerYearMedium = 0, monitoringPerYearHigh = 0,
            hazardousMaterialsPerHa = 0, communityHeritageLumpSum = 0,
            bulkingFactor = 1, erosionControlsPerHa = 0, mobilisationLumpSum = 1000 \<rparr>,
       indirectRates =
         \<lparr> siteEstablishmentPercent = 10, contractorMarginPercent = 0,
            contingencyPercent = 10, ownersCostsPercent = 0 \<rparr>,
       riskFactors =
         \<lparr> contaminationUncertainty = 0, geotechUncertainty = 0,
            waterQualityUncertainty = 0, regulatoryUncertainty = 0,
            logisticsComplexity = 0 \<rparr>,
       financialParams =
         \<lparr> closureStartYear = 2026, escalationRatePercent = 3,
            discountRatePercent = 7, discountRateMode = RealMode \<rparr>,
       phaseDurations =
         (\<lambda>p. case p of
                PlanningApprovals \<Rightarrow> 1
              | DecommissioningDemolition \<Rightarrow> 1
              | RevegetationEcosystem \<Rightarrow> 1
              | MonitoringMaintenance \<Rightarrow> 1
              | _ \<Rightarrow> 0),
       scenarioName = ''Example'' \<rparr>"

definition withDiscountRatePercent :: "real \<Rightarrow> InputState \<Rightarrow> InputState" where
  "withDiscountRatePercent r i =
     i\<lparr>financialParams := (financialParams i)\<lparr>discountRatePercent := r\<rparr>\<rparr>"

definition withEscalationRatePercent :: "real \<Rightarrow> InputState \<Rightarrow> InputState" where
  "withEscalationRatePercent r i =
     i\<lparr>financialParams := (financialParams i)\<lparr>escalationRatePercent := r\<rparr>\<rparr>"

definition withPhaseDurations :: "PhaseDurations \<Rightarrow> InputState \<Rightarrow> InputState" where
  "withPhaseDurations d i = i\<lparr>phaseDurations := d\<rparr>"

definition freeInputs :: InputState where
  "freeInputs =
     exampleInputs\<lparr>unitRates :=
       (unitRates exampleInputs)\<lparr>revegetationPerHa := 0, monitoringPerYearLow := 0,
                                  mobilisationLumpSum := 0\<rparr>\<rparr>"

definition sampleItem :: LineItemCost where
  "sampleItem =
     \<lparr> category = Mobilisation, description = Text ''Site mobilisation and demobilisation'',
        quantity = 1, unit = ''lump sum'', unitRate = 5, subtotal = 5,
        phase = DecommissioningDemolition \<rparr>"

subsection \<open>Auxiliary functions of the proofs\<close>

text \<open>
  \<open>allLineItems\<close> is the combined list of direct and indirect items that both pipelines
  build; \<open>yearlyBuckets\<close> is the array of buckets after the distribution loop of
  \<open>calculateAnnualCashflows\<close>; \<open>gridTotal\<close> is the sum of every entry of every bucket;
  \<open>discountFactor\<close> is the multiplier that escalation followed by discounting applies to
  the nominal cost of year \<open>i\<close>; \<open>directWorksTotal\<close> is the sum of the direct items and
  \<open>markup\<close> the factor by which the indirect waterfall multiplies it.
\<close>

definition allLineItems :: "InputState \<Rightarrow> LineItemCost list" where
  "allLineItems inputs =
     (let derived = calculateDerivedQuantities inputs;
          directItems = calculateDirectWorksCosts inputs derived
      in directItems @ calculateIndirectCosts (sumSubtotals directItems) inputs derived)"

definition yearlyBuckets :: "LineItemCost list \<Rightarrow> InputState \<Rightarrow> PhaseBreakdown list" where
  "yearlyBuckets items inputs =
     foldl (allocateItem (phaseDurations inputs) (calculateTotalDuration (phaseDurations inputs)))
       (initBreakdowns (calculateTotalDuration (phaseDurations inputs))) items"

definition gridTotal :: "PhaseBreakdown list \<Rightarrow> real" where
  "gridTotal ypb = sum_list (map sumPhases ypb)"

definition discountFactor :: "real \<Rightarrow> real \<Rightarrow> int \<Rightarrow> real" where
  "discountFactor esc disc i = (1 + esc) ^ nat i / (1 + disc) ^ nat i"

definition directWorksTotal :: "InputState \<Rightarrow> real" where
  "directWorksTotal inputs =
     sumSubtotals (calculateDirectWorksCosts inputs (calculateDerivedQuantities inputs))"

definition markup :: "InputState \<Rightarrow> real" where
  "markup inputs =
     (1 + siteEstablishmentPercent (indirectRates inputs) / 100) *
     (1 + contractorMarginPercent (indirectRates inputs) / 100) *
     (1 + contingencyPercent (indirectRates inputs) / 100 +
      riskScoreToUplift (calculateRiskScore (riskFactors inputs)) / 100) *
     (1 + ownersCostsPercent (indirectRates inputs) / 100)"

section \<open>Properties\<close>

subsection \<open>Sums of line items\<close>

lemma foldl_add_subtotal:
  "foldl (\<lambda>s item. s + subtotal item) a items = a + sum_list (map subtotal items)"
  by (induction items arbitrary: a) simp_all

lemma sumSubtotals_sum_list: "sumSubtotals items = sum_list (map subtotal items)"
  by (simp add: sumSubtotals_def foldl_add_subtotal)

subsection \<open>Phase scheduler\<close>

text \<open>
  Claim C1. The total duration is planning + decommissioning + max(earthworks, TSF/WRD) +
  revegetation + max(water, monitoring) + relinquishment, and the start years follow the
  overlap model: planning starts at 0, decommissioning after planning; earthworks, TSF/WRD
  and water management all start when decommissioning ends; revegetation starts when the
  longer of earthworks and TSF/WRD ends; monitoring when revegetation ends; relinquishment
  max(water, monitoring) years after the start of monitoring.
\<close>

theorem schedule_overlap_model:
  "calculateTotalDuration d =
     d PlanningApprovals + d DecommissioningDemolition +
     max (d EarthworksLandform) (d TailingsWRDRehabilitation) +
     d RevegetationEcosystem +
     max (d WaterManagement) (d MonitoringMaintenance) +
     d RelinquishmentPostClosure
   \<and> getPhaseStartYear PlanningApprovals d = 0
   \<and> getPhaseStartYear DecommissioningDemolition d =
       getPhaseStartYear PlanningApprovals d + d PlanningApprovals
   \<and> getPhaseStartYear EarthworksLandform d =
       getPhaseStartYear DecommissioningDemolition d + d DecommissioningDemolition
   \<and> getPhaseStartYear TailingsWRDRehabilitation d =
       getPhaseStartYear DecommissioningDemolition d + d DecommissioningDemolition
   \<and> getPhaseStartYear WaterManagement d =
       getPhaseStartYear DecommissioningDemolition d + d DecommissioningDemolition
   \<and> getPhaseStartYear RevegetationEcosystem d =
       getPhaseStartYear EarthworksLandform d +
       max (d EarthworksLandform) (d TailingsWRDRehabilitation)
   \<and> getPhaseStartYear MonitoringMaintenance d =
       getPhaseStartYear RevegetationEcosystem d + d RevegetationEcosystem
   \<and> getPhaseStartYear RelinquishmentPostClosure d =
       getPhaseStartYear MonitoringMaintenance d +
       max (d WaterManagement) (d MonitoringMaintenance)"
  by (simp add: calculateTotalDuration_def)

subsection \<open>Indirect cost waterfall\<close>

text \<open>
  Claim C5. \<open>calculateIndirectCosts\<close> returns exactly five line items, in the order
  SiteEstablishment, ContractorMargin, Contingency, RiskUplift, OwnersCosts, whose subtotals
  form the waterfall: site establishment on the direct total; margin on direct + site
  establishment; contingency and risk uplift both on direct + site establishment + margin;
  owner's costs on the sum of all of these.
\<close>

theorem indirect_waterfall:
  "map category (calculateIndirectCosts direct inputs derived) =
     [SiteEstablishment, ContractorMargin, Contingency, RiskUplift, OwnersCosts]
   \<and> map subtotal (calculateIndirectCosts direct inputs derived) =
     (let r = indirectRates inputs;
          siteEst = direct * siteEstablishmentPercent r / 100;
          margin = (direct + siteEst) * contractorMarginPercent r / 100;
          contingency = (direct + siteEst + margin) * contingencyPercent r / 100;
          uplift = (direct + siteEst + margin) * riskUpliftPercent derived / 100;
          owners =
            (direct + siteEst + margin + contingency + uplift) * ownersCostsPercent r / 100
      in [siteEst, margin, contingency, uplift, owners])"
  by (simp add: calculateIndirectCosts_def Let_def)

subsection \<open>Risk uplift\<close>

lemma riskScoreToUplift_max:
  "riskScoreToUplift x = max (x / 4) (max (x / 2 - 10) (3 * x / 4 - 25))"
  unfolding riskScoreToUplift_def max_def by (simp add: field_simps)

lemma riskScoreToUplift_mono: "x \<le> y \<Longrightarrow> riskScoreToUplift x \<le> riskScoreToUplift y"
  unfolding riskScoreToUplift_max by (auto simp: max_def)

lemma riskScoreToUplift_continuous: "continuous_on A riskScoreToUplift"
proof -
  have h: "riskScoreToUplift = (\<lambda>x. max (x / 4) (max (x / 2 - 10) (3 * x / 4 - 25)))"
    by (rule ext) (rule riskScoreToUplift_max)
  show ?thesis unfolding h by (intro continuous_intros) simp_all
qed

text \<open>
  Claim C6. \<open>riskScoreToUplift\<close> is monotone non-decreasing and continuous over [0,100],
  and takes the values 0, 5, 10, 20, 35, 50 at the scores 0, 20, 40, 60, 80, 100.
\<close>

theorem riskScoreToUplift_properties:
  "(\<forall>x y. 0 \<le> x \<and> x \<le> y \<and> y \<le> 100 \<longrightarrow> riskScoreToUplift x \<le> riskScoreToUplift y)
   \<and> continuous_on {0..100} riskScoreToUplift
   \<and> riskScoreToUplift 0 = 0 \<and> riskScoreToUplift 20 = 5 \<and> riskScoreToUplift 40 = 10
   \<and> riskScoreToUplift 60 = 20 \<and> riskScoreToUplift 80 = 35 \<and> riskScoreToUplift 100 = 50"
proof (intro conjI allI impI)
  fix x y :: real
  assume "0 \<le> x \<and> x \<le> y \<and> y \<le> 100"
  then show "riskScoreToUplift x \<le> riskScoreToUplift y"
    by (simp add: riskScoreToUplift_mono)
next
  show "continuous_on {0..100} riskScoreToUplift"
    by (rule riskScoreToUplift_continuous)
qed (simp_all add: riskScoreToUplift_def)

theorem riskScoreToUplift_properties_witness:
  "(0::real) \<le> 30 \<and> (30::real) \<le> 70 \<and> (70::real) \<le> 100
   \<and> riskScoreToUplift 30 \<le> riskScoreToUplift 70
   \<and> riskScoreToUplift 30 = 15 / 2 \<and> riskScoreToUplift 70 = 55 / 2"
proof -
  have "riskScoreToUplift 30 \<le> riskScoreToUplift 70"
    using riskScoreToUplift_properties [THEN conjunct1, rule_format, of 30 70] by simp
  then show ?thesis by (simp add: riskScoreToUplift_def)
qed

subsection \<open>The discount-rate mode\<close>

lemma derived_withMode:
  "calculateDerivedQuantities (withDiscountRateMode m i) = calculateDerivedQuantities i"
  by (simp add: calculateDerivedQuantities_def withDiscountRateMode_def)

lemma direct_withMode:
  "calculateDirectWorksCosts (withDiscountRateMode m i) d = calculateDirectWorksCosts i d"
  by (simp add: calculateDirectWorksCosts_def withDiscountRateMode_def)

lemma indirect_withMode:
  "calculateIndirectCosts t (withDiscountRateMode m i) d = calculateIndirectCosts t i d"
  by (simp add: calculateIndirectCosts_def withDiscountRateMode_def)

lemma cashflows_withMode:
  "calculateAnnualCashflows items (withDiscountRateMode m i) = calculateAnnualCashflows items i"
  by (simp add: calculateAnnualCashflows_def Let_def withDiscountRateMode_def)

lemma totals_withMode:
  "calculateTotalForSensitivity (withDiscountRateMode m i) = calculateTotalForSensitivity i"
  by (simp add: calculateTotalForSensitivity_def derived_withMode direct_withMode
        indirect_withMode cashflows_withMode)

lemma drivers_withMode:
  "driver \<in> set SENSITIVITY_DRIVERS \<Longrightarrow>
     getValue driver (withDiscountRateMode m i) = getValue driver i \<and>
     setValue driver (withDiscountRateMode m i) v =
       withDiscountRateMode m (setValue driver i v)"
  by (auto simp: SENSITIVITY_DRIVERS_def withDiscountRateMode_def)

lemma driverResult_withMode:
  "driver \<in> set SENSITIVITY_DRIVERS \<Longrightarrow>
     driverResult (withDiscountRateMode m i) v driver = driverResult i v driver"
  unfolding driverResult_def Let_def by (simp add: drivers_withMode totals_withMode)

lemma sensitivity_withMode:
  "calculateSensitivity (withDiscountRateMode m i) v = calculateSensitivity i v"
  unfolding calculateSensitivity_def by (simp add: driverResult_withMode cong: map_cong)

lemma closureCosts_withMode:
  "calculateClosureCosts (withDiscountRateMode m i) =
   calculateClosureCosts (withDiscountRateMode m' i)"
  by (simp add: calculateClosureCosts_def derived_withMode direct_withMode indirect_withMode
        cashflows_withMode sensitivity_withMode)
     (simp add: withDiscountRateMode_def)

text \<open>
  Claim C9. Flipping \<open>discountRateMode\<close> between real and nominal, all other inputs
  fixed, gives the same \<open>Results\<close>: the flag has no effect anywhere in the pipeline.
\<close>

theorem discountRateMode_no_effect:
  "calculateClosureCosts (withDiscountRateMode NominalMode inputs) =
   calculateClosureCosts (withDiscountRateMode RealMode inputs)"
  by (rule closureCosts_withMode)

subsection \<open>The pipeline of the sensitivity analysis\<close>

text \<open>
  Claim C10. The simplified pipeline inside the sensitivity analysis agrees with the main
  entry point: its total is \<open>totalNominalCost\<close> and its NPV is \<open>totalDiscountedCost\<close>.
\<close>

theorem sensitivity_pipeline_agrees:
  "st_total (calculateTotalForSensitivity inputs) =
     totalNominalCost (calculateClosureCosts inputs)
   \<and> st_npv (calculateTotalForSensitivity inputs) =
     totalDiscountedCost (calculateClosureCosts inputs)"
  by (simp add: calculateTotalForSensitivity_def calculateClosureCosts_def Let_def
        sumSubtotals_sum_list lastElement_def)

subsection \<open>Cashflow distribution\<close>

lemma sumPhases_eq:
  "sumPhases pb = pb PlanningApprovals + pb DecommissioningDemolition + pb EarthworksLandform +
     pb TailingsWRDRehabilitation + pb WaterManagement + pb RevegetationEcosystem +
     pb MonitoringMaintenance + pb RelinquishmentPostClosure"
  by (simp add: sumPhases_def CLOSURE_PHASES_def)

lemma sumPhases_upd: "sumPhases (pb(p := pb p + a)) = sumPhases pb + a"
  by (cases p) (simp_all add: sumPhases_eq)

lemma sum_list_map_update:
  fixes f :: "'a \<Rightarrow> real"
  shows "n < length xs \<Longrightarrow> sum_list (map f (xs[n := x])) = sum_list (map f xs) - f (xs ! n) + f x"
  by (induction xs arbitrary: n) (auto split: nat.splits)

lemma length_addToBucket: "length (addToBucket ypb y p a) = length ypb"
  by (simp add: addToBucket_def)

lemma gridTotal_addToBucket:
  "hasBucket ypb y \<Longrightarrow> gridTotal (addToBucket ypb y p a) = gridTotal ypb + a"
  by (simp add: hasBucket_def addToBucket_def gridTotal_def sum_list_map_update sumPhases_upd)

lemma spread_total:
  assumes "\<forall>y\<in>set ys. 0 \<le> start + y \<and> start + y \<le> D \<and> nat (start + y) < length ypb"
  shows "length (foldl (\<lambda>b y. let yr = start + y
                             in if yr \<le> D \<and> hasBucket b yr
                                then addToBucket b yr p a
                                else b) ypb ys) = length ypb
     \<and> gridTotal (foldl (\<lambda>b y. let yr = start + y
                             in if yr \<le> D \<and> hasBucket b yr
                                then addToBucket b yr p a
                                else b) ypb ys) = gridTotal ypb + a * of_nat (length ys)"
  using assms
proof (induction ys arbitrary: ypb)
  case Nil
  then show ?case by simp
next
  case (Cons y ys)
  have hb: "hasBucket ypb (start + y)" using Cons.prems by (simp add: hasBucket_def)
  have le: "start + y \<le> D" using Cons.prems by simp
  let ?b = "addToBucket ypb (start + y) p a"
  have "\<forall>y\<in>set ys. 0 \<le> start + y \<and> start + y \<le> D \<and> nat (start + y) < length ?b"
    using Cons.prems by (simp add: length_addToBucket)
  from Cons.IH[OF this] show ?case
    using hb le by (simp add: length_addToBucket gridTotal_addToBucket algebra_simps)
qed

lemma phase_window:
  assumes "\<forall>p. 0 \<le> d p"
  shows "0 \<le> getPhaseStartYear p d \<and> getPhaseStartYear p d + d p \<le> calculateTotalDuration d"
proof -
  have h: "0 \<le> d PlanningApprovals" "0 \<le> d DecommissioningDemolition" "0 \<le> d EarthworksLandform"
    "0 \<le> d TailingsWRDRehabilitation" "0 \<le> d WaterManagement" "0 \<le> d RevegetationEcosystem"
    "0 \<le> d MonitoringMaintenance" "0 \<le> d RelinquishmentPostClosure"
    using assms by simp_all
  show ?thesis using h by (cases p) (auto simp: calculateTotalDuration_def)
qed

lemma allocateItem_total:
  assumes nonneg: "\<forall>p. 0 \<le> d p" and len: "length ypb = nat (calculateTotalDuration d + 1)"
  shows "length (allocateItem d (calculateTotalDuration d) ypb item) = length ypb
     \<and> gridTotal (allocateItem d (calculateTotalDuration d) ypb item) = gridTotal ypb + subtotal item"
proof -
  let ?p = "phase item"
  let ?D = "calculateTotalDuration d"
  let ?s = "getPhaseStartYear ?p d"
  from phase_window[OF nonneg, of ?p] have w: "0 \<le> ?s" "?s + d ?p \<le> ?D" by simp_all
  show ?thesis
  proof (cases "d ?p > 0")
    case True
    have "\<forall>y\<in>set [0..d ?p - 1]. 0 \<le> ?s + y \<and> ?s + y \<le> ?D \<and> nat (?s + y) < length ypb"
      using w len by auto
    from spread_total[OF this, of ?p "subtotal item / of_int (d ?p)"] True
    show ?thesis by (simp add: allocateItem_def Let_def)
  next
    case False
    then have z: "d ?p = 0" using nonneg by (metis order_le_less)
    have "hasBucket ypb ?s" using w len z by (simp add: hasBucket_def)
    then show ?thesis using False
      by (simp add: allocateItem_def Let_def length_addToBucket gridTotal_addToBucket)
  qed
qed

lemma allocate_all_total:
  assumes nonneg: "\<forall>p. 0 \<le> d p" and len: "length ypb = nat (calculateTotalDuration d + 1)"
  shows "length (foldl (allocateItem d (calculateTotalDuration d)) ypb items) = length ypb
     \<and> gridTotal (foldl (allocateItem d (calculateTotalDuration d)) ypb items) =
        gridTotal ypb + sum_list (map subtotal items)"
  using len
proof (induction items arbitrary: ypb)
  case Nil
  then show ?case by simp
next
  case (Cons item items)
  from allocateItem_total[OF nonneg Cons.prems, of item]
  have a: "length (allocateItem d (calculateTotalDuration d) ypb item) = length ypb"
    and b: "gridTotal (allocateItem d (calculateTotalDuration d) ypb item) = gridTotal ypb + subtotal item"
    by simp_all
  from Cons.IH[of "allocateItem d (calculateTotalDuration d) ypb item"] a b Cons.prems
  show ?case by simp
qed

lemma init_total: "length (initBreakdowns D) = nat (D + 1) \<and> gridTotal (initBreakdowns D) = 0"
  by (simp add: initBreakdowns_def gridTotal_def sumPhases_eq o_def)


lemma buildCashflows_props:
  assumes "\<forall>i\<in>set ys. hasBucket ypb i"
  shows "map nominalCost (buildCashflows s e d ypb cn cd ys) = map (\<lambda>i. sumPhases (ypb ! nat i)) ys
    \<and> length (buildCashflows s e d ypb cn cd ys) = length ys
    \<and> (ys \<noteq> [] \<longrightarrow>
         cumulativeNominal (last (buildCashflows s e d ypb cn cd ys)) =
           cn + sum_list (map (\<lambda>i. sumPhases (ypb ! nat i)) ys)
       \<and> cumulativeDiscounted (last (buildCashflows s e d ypb cn cd ys)) =
           cd + sum_list (map (\<lambda>i. sumPhases (ypb ! nat i) * discountFactor e d i) ys))"
  using assms
proof (induction ys arbitrary: cn cd)
  case Nil
  then show ?case by simp
next
  case (Cons i ys)
  then have hb: "hasBucket ypb i" and rest: "\<forall>i\<in>set ys. hasBucket ypb i" by simp_all
  note IH = Cons.IH[OF rest]
  show ?case
  proof (cases "ys = []")
    case True
    then show ?thesis using hb by (simp add: Let_def discountFactor_def)
  next
    case False
    have ne: "buildCashflows s e d ypb cn' cd' ys \<noteq> []" for cn' cd'
      using IH[of cn' cd'] False by (metis length_0_conv)
    show ?thesis using hb False IH ne
      by (simp add: Let_def discountFactor_def algebra_simps)
  qed
qed

lemma map_nth_upto: "length xs = nat (D + 1) \<Longrightarrow> map (\<lambda>i. xs ! nat i) [0..D] = xs"
  by (rule nth_equalityI) (auto simp: nth_upto)

lemma sum_over_years:
  assumes "length ypb = nat (D + 1)"
  shows "sum_list (map (\<lambda>i. sumPhases (ypb ! nat i)) [0..D]) = gridTotal ypb"
proof -
  have "map (\<lambda>i. sumPhases (ypb ! nat i)) [0..D] = map sumPhases (map (\<lambda>i. ypb ! nat i) [0..D])"
    by (simp add: o_def)
  then show ?thesis using map_nth_upto[OF assms] by (simp add: gridTotal_def)
qed

lemma all_years_have_buckets:
  "length ypb = nat (D + 1) \<Longrightarrow> \<forall>i\<in>set [0..D]. hasBucket ypb i"
  by (auto simp: hasBucket_def)

lemma calculateAnnualCashflows_eq:
  "calculateAnnualCashflows items inputs =
     buildCashflows (closureStartYear (financialParams inputs))
       (escalationRatePercent (financialParams inputs) / 100)
       (discountRatePercent (financialParams inputs) / 100)
       (yearlyBuckets items inputs) 0 0 [0..calculateTotalDuration (phaseDurations inputs)]"
  by (simp add: calculateAnnualCashflows_def yearlyBuckets_def Let_def)

lemma yearlyBuckets_total:
  assumes "\<forall>p. 0 \<le> phaseDurations inputs p"
  shows "length (yearlyBuckets items inputs) = nat (calculateTotalDuration (phaseDurations inputs) + 1)
     \<and> gridTotal (yearlyBuckets items inputs) = sum_list (map subtotal items)"
  using allocate_all_total[OF assms, of "initBreakdowns (calculateTotalDuration (phaseDurations inputs))" items]
    init_total[of "calculateTotalDuration (phaseDurations inputs)"]
  by (simp add: yearlyBuckets_def)

lemma cashflows_sum_nominal:
  assumes "\<forall>p. 0 \<le> phaseDurations inputs p"
  shows "sum_list (map nominalCost (calculateAnnualCashflows items inputs)) = sum_list (map subtotal items)"
proof -
  let ?D = "calculateTotalDuration (phaseDurations inputs)"
  from yearlyBuckets_total[OF assms, of items]
  have len: "length (yearlyBuckets items inputs) = nat (?D + 1)"
    and tot: "gridTotal (yearlyBuckets items inputs) = sum_list (map subtotal items)" by simp_all
  from buildCashflows_props[OF all_years_have_buckets[OF len]]
  show ?thesis by (simp add: calculateAnnualCashflows_eq sum_over_years[OF len] tot)
qed

lemma schema_durations_nonneg: "InputStateSchema inputs \<Longrightarrow> \<forall>p. 0 \<le> phaseDurations inputs p"
proof
  fix p assume "InputStateSchema inputs"
  then show "0 \<le> phaseDurations inputs p"
    by (cases p) (simp_all add: InputStateSchema_def PhaseDurationsSchema_def)
qed

subsection \<open>Totals of the main entry point\<close>

lemma closureCosts_lineItems: "lineItems (calculateClosureCosts i) = allLineItems i"
  by (simp add: calculateClosureCosts_def allLineItems_def Let_def)

lemma closureCosts_annualCashflows:
  "annualCashflows (calculateClosureCosts i) = calculateAnnualCashflows (allLineItems i) i"
  by (simp add: calculateClosureCosts_def allLineItems_def Let_def)

lemma closureCosts_totalNominalCost:
  "totalNominalCost (calculateClosureCosts i) = sum_list (map subtotal (allLineItems i))"
  by (simp add: calculateClosureCosts_def allLineItems_def Let_def sumSubtotals_sum_list)

lemma closureCosts_totalDiscountedCost:
  "totalDiscountedCost (calculateClosureCosts inputs) =
     (if calculateAnnualCashflows (allLineItems inputs) inputs = [] then 0
      else cumulativeDiscounted (last (calculateAnnualCashflows (allLineItems inputs) inputs)))"
  by (simp add: calculateClosureCosts_def allLineItems_def Let_def lastElement_def)

lemma totalDuration_nonneg:
  assumes "\<forall>p. 0 \<le> d p" shows "0 \<le> calculateTotalDuration d"
proof -
  have "0 \<le> d PlanningApprovals" using assms by simp
  with phase_window[OF assms, of PlanningApprovals] show ?thesis by simp
qed

lemma totalDiscountedCost_sum:
  assumes "\<forall>p. 0 \<le> phaseDurations i p"
  shows "totalDiscountedCost (calculateClosureCosts i) =
     sum_list (map (\<lambda>y. sumPhases (yearlyBuckets (allLineItems i) i ! nat y) *
                         discountFactor (escalationRatePercent (financialParams i) / 100)
                           (discountRatePercent (financialParams i) / 100) y)
                [0..calculateTotalDuration (phaseDurations i)])"
proof -
  let ?D = "calculateTotalDuration (phaseDurations i)"
  from yearlyBuckets_total[OF assms, of "allLineItems i"]
  have len: "length (yearlyBuckets (allLineItems i) i) = nat (?D + 1)" by simp
  have ne: "[0..?D] \<noteq> []" using totalDuration_nonneg[OF assms] by simp
  from buildCashflows_props[OF all_years_have_buckets[OF len]] ne
  show ?thesis
    by (simp add: closureCosts_totalDiscountedCost calculateAnnualCashflows_eq
          flip: length_0_conv)
qed

lemma exampleInputs_valid: "InputStateSchema exampleInputs"
  by (simp add: InputStateSchema_def DirectWorksQuantitiesSchema_def UnitRatesSchema_def
        IndirectCostRatesSchema_def RiskFactorsSchema_def FinancialParamsSchema_def
        PhaseDurationsSchema_def between_def isInt_def exampleInputs_def)

lemma example_subtotals: "map subtotal (allLineItems exampleInputs) = [1000, 1000, 0, 1000, 300, 0, 330, 0, 0]"
  by (simp add: allLineItems_def exampleInputs_def calculateDerivedQuantities_def calculateDirectWorksCosts_def
      calculateIndirectCosts_def sumSubtotals_def haToM2_def calculateRiskScore_def mathRound_def riskScoreToUplift_def Let_def)

text \<open>
  Claim C2. For every valid input, the nominal costs of the annual cashflows add up to
  \<open>totalNominalCost\<close>: no line item loses cost to year clipping, because the allocation
  window of every phase, from its start year to start year + duration, lies within
  0 .. total duration.
\<close>

theorem cashflow_conserves_total:
  assumes "InputStateSchema inputs"
  shows "sum_list (map nominalCost (annualCashflows (calculateClosureCosts inputs))) =
           totalNominalCost (calculateClosureCosts inputs)
       \<and> (\<forall>p. 0 \<le> getPhaseStartYear p (phaseDurations inputs)
             \<and> getPhaseStartYear p (phaseDurations inputs) + phaseDurations inputs p
                 \<le> calculateTotalDuration (phaseDurations inputs))"
  using cashflows_sum_nominal[OF schema_durations_nonneg[OF assms]]
    phase_window[OF schema_durations_nonneg[OF assms]]
  by (simp add: closureCosts_annualCashflows closureCosts_totalNominalCost)

theorem cashflow_conserves_total_witness:
  "InputStateSchema exampleInputs
   \<and> sum_list (map nominalCost (annualCashflows (calculateClosureCosts exampleInputs))) = 3630
   \<and> totalNominalCost (calculateClosureCosts exampleInputs) = 3630"
  using cashflow_conserves_total[OF exampleInputs_valid]
  by (simp add: exampleInputs_valid closureCosts_totalNominalCost example_subtotals)

subsection \<open>Costs are non-negative on valid input\<close>

lemma mathRound_nonneg: "0 \<le> x \<Longrightarrow> 0 \<le> mathRound x"
  by (simp add: mathRound_def)

lemma riskScore_nonneg: "RiskFactorsSchema f \<Longrightarrow> 0 \<le> calculateRiskScore f"
  by (simp add: RiskFactorsSchema_def between_def calculateRiskScore_def Let_def mathRound_nonneg)

lemma riskScoreToUplift_nonneg: "0 \<le> x \<Longrightarrow> 0 \<le> riskScoreToUplift x"
  using riskScoreToUplift_mono[of 0 x] by (simp add: riskScoreToUplift_def)

lemma riskUplift_nonneg:
  "InputStateSchema inputs \<Longrightarrow> 0 \<le> riskUpliftPercent (calculateDerivedQuantities inputs)"
  by (simp add: InputStateSchema_def calculateDerivedQuantities_def Let_def
        riskScoreToUplift_nonneg riskScore_nonneg)

lemma monitoringRate_nonneg:
  "0 \<le> lo \<Longrightarrow> 0 \<le> med \<Longrightarrow> 0 \<le> hi \<Longrightarrow> 0 \<le> getMonitoringRate m lo med hi"
  by (cases m) simp_all

lemma quantities_nonneg:
  assumes "InputStateSchema inputs"
  shows "0 \<le> disturbedAreaHa (quantities inputs)" "0 \<le> tsfAreaHa (quantities inputs)"
    "0 \<le> tsfCoverThicknessM (quantities inputs)" "0 \<le> wrdFootprintHa (quantities inputs)"
    "0 \<le> wrdReshapingDepthM (quantities inputs)" "0 \<le> topsoilThicknessM (quantities inputs)"
    "0 \<le> roadLengthKm (quantities inputs)" "0 \<le> numberOfBuildings (quantities inputs)"
    "0 \<le> waterTreatmentFlowMLPerDay (quantities inputs)"
    "0 \<le> waterTreatmentDurationYears (quantities inputs)"
    "0 \<le> waterTreatmentIntensityFactor (quantities inputs)"
    "0 \<le> monitoringDurationYears (quantities inputs)"
    "0 \<le> hazardousMaterialsAreaHa (quantities inputs)"
  using assms
  by (simp_all add: InputStateSchema_def DirectWorksQuantitiesSchema_def between_def)

lemma unitRates_nonneg:
  assumes "InputStateSchema inputs"
  shows "0 \<le> earthworksPerM3 (unitRates inputs)" "0 \<le> cappingBasePerM2 (unitRates inputs)"
    "0 \<le> cappingThicknessFactor (unitRates inputs)" "0 \<le> topsoilPerM3 (unitRates inputs)"
    "0 \<le> revegetationPerHa (unitRates inputs)"
    "0 \<le> revegetationComplexityFactor (unitRates inputs)"
    "0 \<le> demolitionPerBuilding (unitRates inputs)" "0 \<le> roadRehabPerKm (unitRates inputs)"
    "0 \<le> waterTreatmentCapex (unitRates inputs)" "0 \<le> waterTreatmentOpexPerML (unitRates inputs)"
    "0 \<le> monitoringPerYearLow (unitRates inputs)" "0 \<le> monitoringPerYearMedium (unitRates inputs)"
    "0 \<le> monitoringPerYearHigh (unitRates inputs)" "0 \<le> hazardousMaterialsPerHa (unitRates inputs)"
    "0 \<le> communityHeritageLumpSum (unitRates inputs)" "0 \<le> bulkingFactor (unitRates inputs)"
    "0 \<le> erosionControlsPerHa (unitRates inputs)" "0 \<le> mobilisationLumpSum (unitRates inputs)"
  using assms
  by (simp_all add: InputStateSchema_def UnitRatesSchema_def between_def)

lemma indirectRates_nonneg:
  assumes "InputStateSchema inputs"
  shows "0 \<le> siteEstablishmentPercent (indirectRates inputs)"
    "0 \<le> contractorMarginPercent (indirectRates inputs)"
    "0 \<le> contingencyPercent (indirectRates inputs)"
    "0 \<le> ownersCostsPercent (indirectRates inputs)"
  using assms
  by (simp_all add: InputStateSchema_def IndirectCostRatesSchema_def between_def)

lemma direct_nonneg:
  assumes "InputStateSchema inputs"
  shows "\<forall>item\<in>set (calculateDirectWorksCosts inputs (calculateDerivedQuantities inputs)).
           0 \<le> subtotal item"
  using quantities_nonneg[OF assms] unitRates_nonneg[OF assms]
  unfolding calculateDirectWorksCosts_def calculateDerivedQuantities_def Let_def haToM2_def
  by (auto simp: monitoringRate_nonneg)

lemma indirect_nonneg:
  assumes "InputStateSchema inputs" and "0 \<le> t" and "0 \<le> riskUpliftPercent derived"
  shows "\<forall>item\<in>set (calculateIndirectCosts t inputs derived). 0 \<le> subtotal item"
proof -
  have r: "IndirectCostRatesSchema (indirectRates inputs)"
    using assms by (simp add: InputStateSchema_def)
  show ?thesis
    using r assms(2,3)
    unfolding IndirectCostRatesSchema_def between_def calculateIndirectCosts_def Let_def
    by simp
qed

lemma sum_list_nonneg_subtotals:
  "\<forall>item\<in>set items. 0 \<le> subtotal item \<Longrightarrow> 0 \<le> sum_list (map subtotal items)"
  by (induction items) auto

lemma allLineItems_nonneg:
  assumes "InputStateSchema inputs"
  shows "\<forall>item\<in>set (allLineItems inputs). 0 \<le> subtotal item"
proof -
  let ?d = "calculateDerivedQuantities inputs"
  let ?direct = "calculateDirectWorksCosts inputs ?d"
  have d: "\<forall>item\<in>set ?direct. 0 \<le> subtotal item" by (rule direct_nonneg[OF assms])
  then have "0 \<le> sumSubtotals ?direct"
    by (simp add: sumSubtotals_sum_list sum_list_nonneg_subtotals)
  from indirect_nonneg[OF assms this riskUplift_nonneg[OF assms]] d
  show ?thesis by (auto simp: allLineItems_def Let_def)
qed


lemma sumPhases_nonneg: "\<forall>p. 0 \<le> pb p \<Longrightarrow> 0 \<le> sumPhases pb"
  by (simp add: sumPhases_eq)

lemma addToBucket_nonneg:
  assumes "\<forall>pb\<in>set ypb. \<forall>p. 0 \<le> pb p" and "hasBucket ypb y" and "0 \<le> a"
  shows "\<forall>pb\<in>set (addToBucket ypb y q a). \<forall>p. 0 \<le> pb p"
proof
  fix pb assume "pb \<in> set (addToBucket ypb y q a)"
  then have "pb \<in> insert ((ypb ! nat y)(q := (ypb ! nat y) q + a)) (set ypb)"
    unfolding addToBucket_def using set_update_subset_insert by fastforce
  moreover have "ypb ! nat y \<in> set ypb" using assms(2) by (simp add: hasBucket_def)
  ultimately show "\<forall>p. 0 \<le> pb p" using assms(1,3) by auto
qed

lemma spread_nonneg:
  assumes "\<forall>pb\<in>set ypb. \<forall>p. 0 \<le> pb p" and "0 \<le> a"
  shows "\<forall>pb\<in>set (foldl (\<lambda>b y. let yr = start + y
                             in if yr \<le> D \<and> hasBucket b yr
                                then addToBucket b yr q a
                                else b) ypb ys). \<forall>p. 0 \<le> pb p"
  using assms(1)
proof (induction ys arbitrary: ypb)
  case Nil
  then show ?case by simp
next
  case (Cons y ys)
  show ?case
  proof (cases "start + y \<le> D \<and> hasBucket ypb (start + y)")
    case True
    from addToBucket_nonneg[OF Cons.prems _ assms(2), of "start + y" q] True
    have "\<forall>pb\<in>set (addToBucket ypb (start + y) q a). \<forall>p. 0 \<le> pb p" by simp
    from Cons.IH[OF this] True show ?thesis by (simp add: Let_def)
  next
    case False
    with Cons.IH[OF Cons.prems] show ?thesis by (auto simp: Let_def)
  qed
qed

lemma allocateItem_nonneg:
  assumes "\<forall>pb\<in>set ypb. \<forall>p. 0 \<le> pb p" and "0 \<le> subtotal item"
  shows "\<forall>pb\<in>set (allocateItem d D ypb item). \<forall>p. 0 \<le> pb p"
proof (cases "d (phase item) > 0")
  case True
  then have "0 \<le> subtotal item / of_int (d (phase item))" using assms(2) by simp
  from spread_nonneg[OF assms(1) this] True show ?thesis
    by (simp add: allocateItem_def Let_def)
next
  case False
  then show ?thesis
    using addToBucket_nonneg[OF assms(1) _ assms(2)] assms(1)
    by (simp add: allocateItem_def Let_def)
qed

lemma yearlyBuckets_nonneg:
  assumes "\<forall>item\<in>set items. 0 \<le> subtotal item"
  shows "\<forall>pb\<in>set (yearlyBuckets items inputs). \<forall>p. 0 \<le> pb p"
proof -
  have step: "\<forall>pb\<in>set (foldl (allocateItem d D) ypb items). \<forall>p. 0 \<le> pb p"
    if "\<forall>pb\<in>set ypb. \<forall>p. 0 \<le> pb p" for d D ypb
    using that assms
  proof (induction items arbitrary: ypb)
    case Nil
    then show ?case by simp
  next
    case (Cons item items)
    from allocateItem_nonneg[OF Cons.prems(1), of item d D] Cons.prems(2)
    have "\<forall>pb\<in>set (allocateItem d D ypb item). \<forall>p. 0 \<le> pb p" by simp
    from Cons.IH[OF this] Cons.prems(2) show ?case by simp
  qed
  have init: "\<forall>pb\<in>set (initBreakdowns D). \<forall>p. 0 \<le> pb p" for D
    by (simp add: initBreakdowns_def)
  show ?thesis unfolding yearlyBuckets_def by (rule step) (rule init)
qed

lemma year_nominal_nonneg:
  assumes "InputStateSchema inputs" and "hasBucket (yearlyBuckets (allLineItems inputs) inputs) y"
  shows "0 \<le> sumPhases (yearlyBuckets (allLineItems inputs) inputs ! nat y)"
proof -
  have "yearlyBuckets (allLineItems inputs) inputs ! nat y \<in> set (yearlyBuckets (allLineItems inputs) inputs)"
    using assms(2) by (simp add: hasBucket_def)
  with yearlyBuckets_nonneg[OF allLineItems_nonneg[OF assms(1)], of inputs]
  show ?thesis by (simp add: sumPhases_nonneg)
qed

subsection \<open>Discounting\<close>

lemma discountFactor_pos: "0 \<le> e \<Longrightarrow> 0 \<le> d \<Longrightarrow> 0 < discountFactor e d y"
  by (simp add: discountFactor_def)

lemma discountFactor_le_one: "0 \<le> e \<Longrightarrow> e \<le> d \<Longrightarrow> discountFactor e d y \<le> 1"
  by (simp add: discountFactor_def power_mono)

lemma discountFactor_zero: "discountFactor 0 0 y = 1"
  by (simp add: discountFactor_def)

lemma discountFactor_antimono:
  assumes "0 \<le> e" "0 \<le> d1" "d1 \<le> d2"
  shows "discountFactor e d2 y \<le> discountFactor e d1 y"
proof -
  have "(1 + d1) ^ nat y \<le> (1 + d2) ^ nat y" using assms by (simp add: power_mono)
  moreover have "0 < (1 + d1) ^ nat y" using assms by simp
  moreover have "0 \<le> (1 + e) ^ nat y" using assms by simp
  ultimately show ?thesis unfolding discountFactor_def by (simp add: frac_le)
qed

lemma discountFactor_strict:
  assumes "0 \<le> e" "0 \<le> d1" "d1 < d2" "1 \<le> y"
  shows "discountFactor e d2 y < discountFactor e d1 y"
proof -
  have n: "0 < nat y" using assms by simp
  have "(1 + d1) ^ nat y < (1 + d2) ^ nat y" using assms n by (simp add: power_strict_mono)
  moreover have "0 < (1 + d1) ^ nat y" using assms by simp
  moreover have "0 < (1 + e) ^ nat y" using assms by simp
  ultimately show ?thesis unfolding discountFactor_def
    by (simp add: frac_less2)
qed


lemma totalNominalCost_sum:
  assumes "\<forall>p. 0 \<le> phaseDurations inputs p"
  shows "totalNominalCost (calculateClosureCosts inputs) =
     sum_list (map (\<lambda>y. sumPhases (yearlyBuckets (allLineItems inputs) inputs ! nat y))
                [0..calculateTotalDuration (phaseDurations inputs)])"
proof -
  from yearlyBuckets_total[OF assms, of "allLineItems inputs"]
  have len: "length (yearlyBuckets (allLineItems inputs) inputs) =
               nat (calculateTotalDuration (phaseDurations inputs) + 1)"
    and tot: "gridTotal (yearlyBuckets (allLineItems inputs) inputs) =
               sum_list (map subtotal (allLineItems inputs))" by simp_all
  show ?thesis by (simp add: closureCosts_totalNominalCost sum_over_years[OF len] tot)
qed

lemma valid_years_nonneg:
  assumes "InputStateSchema inputs"
    and "y \<in> set [0..calculateTotalDuration (phaseDurations inputs)]"
  shows "0 \<le> sumPhases (yearlyBuckets (allLineItems inputs) inputs ! nat y)"
proof -
  from yearlyBuckets_total[OF schema_durations_nonneg[OF assms(1)], of "allLineItems inputs"]
  have len: "length (yearlyBuckets (allLineItems inputs) inputs) =
               nat (calculateTotalDuration (phaseDurations inputs) + 1)" by simp
  from all_years_have_buckets[OF len] assms(2)
  have "hasBucket (yearlyBuckets (allLineItems inputs) inputs) y" by blast
  then show ?thesis by (rule year_nominal_nonneg[OF assms(1)])
qed

lemma schema_rates_nonneg:
  assumes "InputStateSchema inputs"
  shows "0 \<le> escalationRatePercent (financialParams inputs) / 100"
    "0 \<le> discountRatePercent (financialParams inputs) / 100"
  using assms by (simp_all add: InputStateSchema_def FinancialParamsSchema_def between_def)

text \<open>
  Claim C3, as amended. For every valid input whose discount rate is positive and not below
  the escalation rate, \<open>totalDiscountedCost \<le> totalNominalCost\<close>; and when both rates are
  0 the two are equal.
\<close>

theorem discounted_le_nominal:
  assumes "InputStateSchema inputs"
  shows "(0 < discountRatePercent (financialParams inputs)
          \<and> escalationRatePercent (financialParams inputs)
              \<le> discountRatePercent (financialParams inputs)
          \<longrightarrow> totalDiscountedCost (calculateClosureCosts inputs)
              \<le> totalNominalCost (calculateClosureCosts inputs))
       \<and> (discountRatePercent (financialParams inputs) = 0
          \<and> escalationRatePercent (financialParams inputs) = 0
          \<longrightarrow> totalDiscountedCost (calculateClosureCosts inputs)
              = totalNominalCost (calculateClosureCosts inputs))"
proof (intro conjI impI)
  let ?e = "escalationRatePercent (financialParams inputs) / 100"
  let ?d = "discountRatePercent (financialParams inputs) / 100"
  let ?n = "\<lambda>y. sumPhases (yearlyBuckets (allLineItems inputs) inputs ! nat y)"
  let ?ys = "[0..calculateTotalDuration (phaseDurations inputs)]"
  note dur = schema_durations_nonneg[OF assms]
  {
    assume h: "0 < discountRatePercent (financialParams inputs)
          \<and> escalationRatePercent (financialParams inputs)
              \<le> discountRatePercent (financialParams inputs)"
    have "?n y * discountFactor ?e ?d y \<le> ?n y" if "y \<in> set ?ys" for y
    proof -
      have "discountFactor ?e ?d y \<le> 1"
        using h schema_rates_nonneg(1)[OF assms] by (intro discountFactor_le_one) simp_all
      with valid_years_nonneg[OF assms that] show ?thesis by (simp add: mult_left_le)
    qed
    then have "sum_list (map (\<lambda>y. ?n y * discountFactor ?e ?d y) ?ys) \<le> sum_list (map ?n ?ys)"
      by (intro sum_list_mono) simp
    then show "totalDiscountedCost (calculateClosureCosts inputs)
              \<le> totalNominalCost (calculateClosureCosts inputs)"
      by (simp add: totalDiscountedCost_sum[OF dur] totalNominalCost_sum[OF dur])
  }
  {
    assume "discountRatePercent (financialParams inputs) = 0
          \<and> escalationRatePercent (financialParams inputs) = 0"
    then show "totalDiscountedCost (calculateClosureCosts inputs)
              = totalNominalCost (calculateClosureCosts inputs)"
      by (simp add: totalDiscountedCost_sum[OF dur] totalNominalCost_sum[OF dur] discountFactor_zero)
  }
qed

subsection \<open>The example site\<close>

lemma example_duration: "calculateTotalDuration (phaseDurations exampleInputs) = 4"
  by (simp add: calculateTotalDuration_def exampleInputs_def)

lemma example_year_totals:
  "map sumPhases (yearlyBuckets (allLineItems exampleInputs) exampleInputs) =
     [630, 1000, 1000, 1000, 0]"
  by code_simp

lemma example_year_total:
  assumes "k < 5"
  shows "sumPhases (yearlyBuckets (allLineItems exampleInputs) exampleInputs ! k) =
     [630, 1000, 1000, 1000, 0] ! k"
proof -
  have "length (map sumPhases (yearlyBuckets (allLineItems exampleInputs) exampleInputs)) = 5"
    by (simp only: example_year_totals) simp
  then have "k < length (yearlyBuckets (allLineItems exampleInputs) exampleInputs)"
    using assms by simp
  then have "sumPhases (yearlyBuckets (allLineItems exampleInputs) exampleInputs ! k) =
      map sumPhases (yearlyBuckets (allLineItems exampleInputs) exampleInputs) ! k"
    by simp
  then show ?thesis by (simp only: example_year_totals)
qed

lemma derived_withDiscount:
  "calculateDerivedQuantities (withDiscountRatePercent r i) = calculateDerivedQuantities i"
  by (simp add: calculateDerivedQuantities_def withDiscountRatePercent_def)

lemma direct_withDiscount:
  "calculateDirectWorksCosts (withDiscountRatePercent r i) d = calculateDirectWorksCosts i d"
  by (simp add: calculateDirectWorksCosts_def withDiscountRatePercent_def)

lemma indirect_withDiscount:
  "calculateIndirectCosts t (withDiscountRatePercent r i) d = calculateIndirectCosts t i d"
  by (simp add: calculateIndirectCosts_def withDiscountRatePercent_def)

lemma allLineItems_withDiscount [simp]:
  "allLineItems (withDiscountRatePercent r i) = allLineItems i"
  by (simp add: allLineItems_def derived_withDiscount direct_withDiscount indirect_withDiscount)

lemma derived_withEscalation:
  "calculateDerivedQuantities (withEscalationRatePercent r i) = calculateDerivedQuantities i"
  by (simp add: calculateDerivedQuantities_def withEscalationRatePercent_def)

lemma direct_withEscalation:
  "calculateDirectWorksCosts (withEscalationRatePercent r i) d = calculateDirectWorksCosts i d"
  by (simp add: calculateDirectWorksCosts_def withEscalationRatePercent_def)

lemma indirect_withEscalation:
  "calculateIndirectCosts t (withEscalationRatePercent r i) d = calculateIndirectCosts t i d"
  by (simp add: calculateIndirectCosts_def withEscalationRatePercent_def)

lemma allLineItems_withEscalation [simp]:
  "allLineItems (withEscalationRatePercent r i) = allLineItems i"
  by (simp add: allLineItems_def derived_withEscalation direct_withEscalation
        indirect_withEscalation)

lemma yearlyBuckets_withDiscount [simp]:
  "yearlyBuckets items (withDiscountRatePercent r i) = yearlyBuckets items i"
  by (simp add: yearlyBuckets_def withDiscountRatePercent_def)

lemma yearlyBuckets_withEscalation [simp]:
  "yearlyBuckets items (withEscalationRatePercent r i) = yearlyBuckets items i"
  by (simp add: yearlyBuckets_def withEscalationRatePercent_def)

lemma fields_withDiscount [simp]:
  "phaseDurations (withDiscountRatePercent r i) = phaseDurations i"
  "discountRatePercent (financialParams (withDiscountRatePercent r i)) = r"
  "escalationRatePercent (financialParams (withDiscountRatePercent r i)) =
     escalationRatePercent (financialParams i)"
  "closureStartYear (financialParams (withDiscountRatePercent r i)) =
     closureStartYear (financialParams i)"
  by (simp_all add: withDiscountRatePercent_def)

lemma fields_withEscalation [simp]:
  "phaseDurations (withEscalationRatePercent r i) = phaseDurations i"
  "escalationRatePercent (financialParams (withEscalationRatePercent r i)) = r"
  "discountRatePercent (financialParams (withEscalationRatePercent r i)) =
     discountRatePercent (financialParams i)"
  "closureStartYear (financialParams (withEscalationRatePercent r i)) =
     closureStartYear (financialParams i)"
  by (simp_all add: withEscalationRatePercent_def)

lemma valid_withDiscount:
  "InputStateSchema i \<Longrightarrow> 0 \<le> r \<Longrightarrow> r \<le> 30 \<Longrightarrow> InputStateSchema (withDiscountRatePercent r i)"
  by (simp add: InputStateSchema_def FinancialParamsSchema_def between_def withDiscountRatePercent_def)

lemma valid_withEscalation:
  "InputStateSchema i \<Longrightarrow> 0 \<le> r \<Longrightarrow> r \<le> 20 \<Longrightarrow> InputStateSchema (withEscalationRatePercent r i)"
  by (simp add: InputStateSchema_def FinancialParamsSchema_def between_def withEscalationRatePercent_def)

lemma example_rates:
  "escalationRatePercent (financialParams exampleInputs) = 3"
  "discountRatePercent (financialParams exampleInputs) = 7"
  "closureStartYear (financialParams exampleInputs) = 2026"
  by (simp_all add: exampleInputs_def)

lemma example_durations_nonneg: "\<forall>p. 0 \<le> phaseDurations exampleInputs p"
  by (rule schema_durations_nonneg[OF exampleInputs_valid])

lemma upto_0_4: "[0..4::int] = [0, 1, 2, 3, 4]"
  by (simp add: upto_rec1)

lemma discountFactor_at_0: "discountFactor e d 0 = 1"
  by (simp add: discountFactor_def)

lemma example_discounted:
  assumes "phaseDurations i = phaseDurations exampleInputs"
    and "yearlyBuckets (allLineItems i) i = yearlyBuckets (allLineItems exampleInputs) exampleInputs"
  shows "totalDiscountedCost (calculateClosureCosts i) =
      630 + 1000 * discountFactor (escalationRatePercent (financialParams i) / 100)
                     (discountRatePercent (financialParams i) / 100) 1
          + 1000 * discountFactor (escalationRatePercent (financialParams i) / 100)
                     (discountRatePercent (financialParams i) / 100) 2
          + 1000 * discountFactor (escalationRatePercent (financialParams i) / 100)
                     (discountRatePercent (financialParams i) / 100) 3"
proof -
  have d: "\<forall>p. 0 \<le> phaseDurations i p" using example_durations_nonneg assms(1) by simp
  show ?thesis
    by (simp add: totalDiscountedCost_sum[OF d] assms example_duration upto_0_4
          example_year_total discountFactor_at_0)
qed

text \<open>
  Claim C3 as stated fails: with escalation 20 % and discount 10 %, both valid, the
  discount rate is positive and the discounted total 5602530/1331 (about 4209) exceeds the
  nominal total 3630, since each year's cost is multiplied by (1.2 / 1.1) to the power of
  the year.
\<close>

theorem discounted_le_nominal_counterexample:
  "InputStateSchema (withEscalationRatePercent 20 (withDiscountRatePercent 10 exampleInputs))
   \<and> 0 < discountRatePercent (financialParams
             (withEscalationRatePercent 20 (withDiscountRatePercent 10 exampleInputs)))
   \<and> totalNominalCost (calculateClosureCosts
        (withEscalationRatePercent 20 (withDiscountRatePercent 10 exampleInputs))) = 3630
   \<and> totalDiscountedCost (calculateClosureCosts
        (withEscalationRatePercent 20 (withDiscountRatePercent 10 exampleInputs)))
       = 5602530 / 1331
   \<and> \<not> totalDiscountedCost (calculateClosureCosts
        (withEscalationRatePercent 20 (withDiscountRatePercent 10 exampleInputs)))
       \<le> totalNominalCost (calculateClosureCosts
        (withEscalationRatePercent 20 (withDiscountRatePercent 10 exampleInputs)))"
proof -
  let ?h = "withEscalationRatePercent 20 (withDiscountRatePercent 10 exampleInputs)"
  have v: "InputStateSchema ?h"
    by (intro valid_withEscalation valid_withDiscount exampleInputs_valid) simp_all
  have n: "totalNominalCost (calculateClosureCosts ?h) = 3630"
    by (simp add: closureCosts_totalNominalCost example_subtotals)
  have d: "totalDiscountedCost (calculateClosureCosts ?h) = 5602530 / 1331"
    by (simp add: example_discounted discountFactor_def power_divide)
  show ?thesis using v by (simp add: n d)
qed

text \<open>
  The amended claim on \<open>exampleInputs\<close> (escalation 3 %, discount 7 %), and with both
  rates set to 0.
\<close>

theorem discounted_le_nominal_witness:
  "InputStateSchema exampleInputs
   \<and> 0 < discountRatePercent (financialParams exampleInputs)
   \<and> escalationRatePercent (financialParams exampleInputs)
       \<le> discountRatePercent (financialParams exampleInputs)
   \<and> totalDiscountedCost (calculateClosureCosts exampleInputs) \<le> 3630
   \<and> totalNominalCost (calculateClosureCosts exampleInputs) = 3630
   \<and> InputStateSchema (withEscalationRatePercent 0 (withDiscountRatePercent 0 exampleInputs))
   \<and> totalDiscountedCost
        (calculateClosureCosts
           (withEscalationRatePercent 0 (withDiscountRatePercent 0 exampleInputs))) = 3630"
proof -
  let ?z = "withEscalationRatePercent 0 (withDiscountRatePercent 0 exampleInputs)"
  have vz: "InputStateSchema ?z"
    by (intro valid_withEscalation valid_withDiscount exampleInputs_valid) simp_all
  have n: "totalNominalCost (calculateClosureCosts exampleInputs) = 3630"
    by (simp add: closureCosts_totalNominalCost example_subtotals)
  have nz: "totalNominalCost (calculateClosureCosts ?z) = 3630"
    by (simp add: closureCosts_totalNominalCost example_subtotals)
  from discounted_le_nominal[OF exampleInputs_valid] discounted_le_nominal[OF vz]
  show ?thesis using exampleInputs_valid vz n nz by (simp add: example_rates)
qed

subsection \<open>Raising the discount rate\<close>

lemma buildCashflows_entries:
  "cf \<in> set (buildCashflows s e d ypb cn cd ys) \<Longrightarrow>
     \<exists>y\<in>set ys. year cf = s + y \<and> nominalCost cf = sumPhases (ypb ! nat y)"
proof (induction ys arbitrary: cn cd)
  case Nil
  then show ?case by simp
next
  case (Cons i ys)
  then show ?case by (fastforce simp: Let_def split: if_splits)
qed

lemma sum_list_upto_sum:
  fixes f :: "int \<Rightarrow> real"
  shows "sum_list (map f [0..D]) = sum f {0..D}"
  by (simp add: sum_list_distinct_conv_sum_set)

lemma totalDiscountedCost_withDiscount:
  assumes "\<forall>p. 0 \<le> phaseDurations inputs p"
  shows "totalDiscountedCost (calculateClosureCosts (withDiscountRatePercent r inputs)) =
     sum_list (map (\<lambda>y. sumPhases (yearlyBuckets (allLineItems inputs) inputs ! nat y) *
                         discountFactor (escalationRatePercent (financialParams inputs) / 100)
                           (r / 100) y)
                [0..calculateTotalDuration (phaseDurations inputs)])"
proof -
  have "\<forall>p. 0 \<le> phaseDurations (withDiscountRatePercent r inputs) p"
    using assms by simp
  from totalDiscountedCost_sum[OF this] show ?thesis by simp
qed

text \<open>
  Claim C4, as amended. For every valid input, raising \<open>discountRatePercent\<close> with every
  other input fixed never increases \<open>totalDiscountedCost\<close>, and strictly decreases it
  whenever some cashflow year after the closure start year has a positive nominal cost.
\<close>

theorem raising_discount_rate:
  assumes "InputStateSchema inputs" and "discountRatePercent (financialParams inputs) < r"
  shows "totalDiscountedCost (calculateClosureCosts (withDiscountRatePercent r inputs))
           \<le> totalDiscountedCost (calculateClosureCosts inputs)
       \<and> ((\<exists>cf\<in>set (annualCashflows (calculateClosureCosts inputs)).
              closureStartYear (financialParams inputs) < year cf \<and> 0 < nominalCost cf)
          \<longrightarrow> totalDiscountedCost (calculateClosureCosts (withDiscountRatePercent r inputs))
              < totalDiscountedCost (calculateClosureCosts inputs))"
proof (intro conjI impI)
  let ?e = "escalationRatePercent (financialParams inputs) / 100"
  let ?d1 = "discountRatePercent (financialParams inputs) / 100"
  let ?d2 = "r / 100"
  let ?n = "\<lambda>y. sumPhases (yearlyBuckets (allLineItems inputs) inputs ! nat y)"
  let ?D = "calculateTotalDuration (phaseDurations inputs)"
  note dur = schema_durations_nonneg[OF assms(1)]
  note e0 = schema_rates_nonneg(1)[OF assms(1)]
  note d0 = schema_rates_nonneg(2)[OF assms(1)]
  have lt: "?d1 < ?d2" using assms(2) by simp
  have le: "?n y * discountFactor ?e ?d2 y \<le> ?n y * discountFactor ?e ?d1 y"
    if "y \<in> set [0..?D]" for y
    using valid_years_nonneg[OF assms(1) that] discountFactor_antimono[OF e0 d0, of ?d2 y] lt
    by (simp add: mult_left_mono)
  then have "sum_list (map (\<lambda>y. ?n y * discountFactor ?e ?d2 y) [0..?D])
        \<le> sum_list (map (\<lambda>y. ?n y * discountFactor ?e ?d1 y) [0..?D])"
    by (intro sum_list_mono) simp
  then show "totalDiscountedCost (calculateClosureCosts (withDiscountRatePercent r inputs))
           \<le> totalDiscountedCost (calculateClosureCosts inputs)"
    by (simp add: totalDiscountedCost_withDiscount[OF dur] totalDiscountedCost_sum[OF dur])
  assume "\<exists>cf\<in>set (annualCashflows (calculateClosureCosts inputs)).
              closureStartYear (financialParams inputs) < year cf \<and> 0 < nominalCost cf"
  then obtain cf where cf: "cf \<in> set (calculateAnnualCashflows (allLineItems inputs) inputs)"
      "closureStartYear (financialParams inputs) < year cf" "0 < nominalCost cf"
    by (auto simp: closureCosts_annualCashflows)
  from buildCashflows_entries[OF cf(1)[unfolded calculateAnnualCashflows_eq]]
  obtain y where y: "y \<in> set [0..?D]" "year cf = closureStartYear (financialParams inputs) + y"
      "nominalCost cf = ?n y" by blast
  have y1: "1 \<le> y" using y(2) cf(2) by simp
  have pos: "0 < ?n y" using y(3) cf(3) by simp
  have "?n y * discountFactor ?e ?d2 y < ?n y * discountFactor ?e ?d1 y"
    using discountFactor_strict[OF e0 d0 lt y1] pos by simp
  moreover have "y \<in> {0..?D}" using y(1) by simp
  moreover have "\<forall>y\<in>{0..?D}. ?n y * discountFactor ?e ?d2 y \<le> ?n y * discountFactor ?e ?d1 y"
    using le by simp
  ultimately have "sum (\<lambda>y. ?n y * discountFactor ?e ?d2 y) {0..?D}
        < sum (\<lambda>y. ?n y * discountFactor ?e ?d1 y) {0..?D}"
    by (intro sum_strict_mono_ex1) auto
  then show "totalDiscountedCost (calculateClosureCosts (withDiscountRatePercent r inputs))
           < totalDiscountedCost (calculateClosureCosts inputs)"
    by (simp add: totalDiscountedCost_withDiscount[OF dur] totalDiscountedCost_sum[OF dur]
          sum_list_upto_sum)
qed

lemma example_cashflows:
  "map (\<lambda>cf. (year cf, nominalCost cf))
     (calculateAnnualCashflows (allLineItems exampleInputs) exampleInputs) =
   [(2026, 630), (2027, 1000), (2028, 1000), (2029, 1000), (2030, 0)]"
  by code_simp

theorem raising_discount_rate_witness:
  "InputStateSchema exampleInputs
   \<and> discountRatePercent (financialParams exampleInputs) < 10
   \<and> (\<exists>cf\<in>set (annualCashflows (calculateClosureCosts exampleInputs)).
         closureStartYear (financialParams exampleInputs) < year cf \<and> 0 < nominalCost cf)
   \<and> totalDiscountedCost (calculateClosureCosts (withDiscountRatePercent 10 exampleInputs))
       < totalDiscountedCost (calculateClosureCosts exampleInputs)"
proof -
  have r: "discountRatePercent (financialParams exampleInputs) < 10"
    by (simp add: example_rates)
  have "(2027, 1000) \<in> set (map (\<lambda>cf. (year cf, nominalCost cf))
     (calculateAnnualCashflows (allLineItems exampleInputs) exampleInputs))"
    by (simp only: example_cashflows) simp
  then obtain cf where "cf \<in> set (calculateAnnualCashflows (allLineItems exampleInputs) exampleInputs)"
      "year cf = 2027" "nominalCost cf = 1000"
    by auto
  then have ex: "\<exists>cf\<in>set (annualCashflows (calculateClosureCosts exampleInputs)).
         closureStartYear (financialParams exampleInputs) < year cf \<and> 0 < nominalCost cf"
    unfolding closureCosts_annualCashflows by (intro bexI[of _ cf]) (simp_all add: example_rates)
  from raising_discount_rate[OF exampleInputs_valid r] ex
  show ?thesis using exampleInputs_valid r by blast
qed

lemma allLineItems_withPhaseDurations [simp]:
  "allLineItems (withPhaseDurations d i) = allLineItems i"
proof -
  have "calculateDerivedQuantities (withPhaseDurations d i) = calculateDerivedQuantities i"
    by (simp add: calculateDerivedQuantities_def withPhaseDurations_def)
  moreover have "calculateDirectWorksCosts (withPhaseDurations d i) q = calculateDirectWorksCosts i q" for q
    by (simp add: calculateDirectWorksCosts_def withPhaseDurations_def)
  moreover have "calculateIndirectCosts t (withPhaseDurations d i) q = calculateIndirectCosts t i q" for t q
    by (simp add: calculateIndirectCosts_def withPhaseDurations_def)
  ultimately show ?thesis by (simp add: allLineItems_def)
qed

lemma flat_valid: "InputStateSchema (withPhaseDurations (\<lambda>p. 0) exampleInputs)"
  using exampleInputs_valid
  by (simp add: InputStateSchema_def PhaseDurationsSchema_def withPhaseDurations_def)

lemma flat_year_totals:
  "map sumPhases (yearlyBuckets (allLineItems (withPhaseDurations (\<lambda>p. 0) exampleInputs))
        (withPhaseDurations (\<lambda>p. 0) exampleInputs)) = [3630]"
  by code_simp

lemma flat_discounted:
  "totalDiscountedCost (calculateClosureCosts
      (withDiscountRatePercent r (withPhaseDurations (\<lambda>p. 0) exampleInputs))) = 3630"
proof -
  let ?f = "withPhaseDurations (\<lambda>p. 0) exampleInputs"
  have d: "\<forall>p. 0 \<le> phaseDurations ?f p" by (simp add: withPhaseDurations_def)
  have D: "calculateTotalDuration (phaseDurations ?f) = 0"
    by (simp add: withPhaseDurations_def calculateTotalDuration_def)
  have "map sumPhases (yearlyBuckets (allLineItems ?f) ?f) ! 0 = 3630"
    by (simp only: flat_year_totals) simp
  moreover have "0 < length (yearlyBuckets (allLineItems ?f) ?f)"
    using yearlyBuckets_total[OF d, of "allLineItems ?f"] D by simp
  ultimately have "sumPhases (yearlyBuckets (allLineItems ?f) ?f ! 0) = 3630"
    by simp
  then show ?thesis
    by (simp add: totalDiscountedCost_withDiscount[OF d] D upto_rec1 discountFactor_at_0)
qed

text \<open>
  Claim C4 as stated fails: when every phase duration is 0 (a valid schedule) the whole cost
  falls in year 0, which is not discounted, and the discounted total is 3630 at a discount
  rate of 7 % and of 8 % alike.
\<close>

theorem raising_discount_rate_counterexample:
  "InputStateSchema (withDiscountRatePercent 7 (withPhaseDurations (\<lambda>p. 0) exampleInputs))
   \<and> InputStateSchema (withDiscountRatePercent 8 (withPhaseDurations (\<lambda>p. 0) exampleInputs))
   \<and> totalDiscountedCost (calculateClosureCosts
        (withDiscountRatePercent 7 (withPhaseDurations (\<lambda>p. 0) exampleInputs))) = 3630
   \<and> totalDiscountedCost (calculateClosureCosts
        (withDiscountRatePercent 8 (withPhaseDurations (\<lambda>p. 0) exampleInputs))) = 3630
   \<and> \<not> totalDiscountedCost (calculateClosureCosts
          (withDiscountRatePercent 8 (withPhaseDurations (\<lambda>p. 0) exampleInputs)))
        < totalDiscountedCost (calculateClosureCosts
          (withDiscountRatePercent 7 (withPhaseDurations (\<lambda>p. 0) exampleInputs)))"
  by (simp add: flat_discounted valid_withDiscount flat_valid)

subsection \<open>Division guards\<close>

lemma quotient_by_zero: "quotient x 0 = None \<and> percentOf x 0 = None"
  by (simp add: quotient_def percentOf_def)

lemma percentOf_defined: "0 < y \<Longrightarrow> percentOf x y = Some (x / y * 100)"
  by (simp add: quotient_def percentOf_def)

lemma phaseBreakdown_zero_total:
  "\<forall>s\<in>set (calculatePhaseBreakdown items 0). ps_percentOfTotal s = Some 0"
  by (auto simp: calculatePhaseBreakdown_def Let_def)

lemma categoryBreakdown_zero_total:
  "\<forall>s\<in>set (calculateCategoryBreakdown items 0). cs_percentOfTotal s = Some 0"
  by (auto simp: calculateCategoryBreakdown_def Let_def split: if_splits)

lemma phaseBreakdown_finite:
  "\<forall>s\<in>set (calculatePhaseBreakdown items t). ps_percentOfTotal s \<noteq> None"
  by (auto simp: calculatePhaseBreakdown_def Let_def percentOf_defined)

lemma categoryBreakdown_finite:
  "\<forall>s\<in>set (calculateCategoryBreakdown items t). cs_percentOfTotal s \<noteq> None"
  by (auto simp: calculateCategoryBreakdown_def Let_def percentOf_defined split: if_splits)

lemma closureCosts_breakdowns:
  "phaseBreakdown (calculateClosureCosts inputs) =
     calculatePhaseBreakdown (allLineItems inputs) (totalNominalCost (calculateClosureCosts inputs))"
  "categoryBreakdown (calculateClosureCosts inputs) =
     calculateCategoryBreakdown (allLineItems inputs) (totalNominalCost (calculateClosureCosts inputs))"
  by (simp_all add: calculateClosureCosts_def allLineItems_def Let_def)

lemma closureCosts_monitoringCostShare:
  "totalNominalCost (calculateClosureCosts inputs) = 0 \<Longrightarrow>
     monitoringCostShare (calculateClosureCosts inputs) = Some 0"
  by (simp add: calculateClosureCosts_def Let_def)

lemma monitoringCostShare_finite:
  "monitoringCostShare (calculateClosureCosts inputs) \<noteq> None"
  by (simp add: calculateClosureCosts_def Let_def percentOf_defined)

lemma closureCosts_sensitivityResults:
  "sensitivityResults (calculateClosureCosts inputs) = calculateSensitivity inputs 10"
  by (simp add: calculateClosureCosts_def Let_def)

lemma driver_keys_distinct: "distinct (map d_key SENSITIVITY_DRIVERS)"
  by (simp add: SENSITIVITY_DRIVERS_def)

lemma driverResult_key:
  "r \<in> set (driverResult inputs v driver) \<Longrightarrow>
     driverKey r = d_key driver \<and> getValue driver inputs \<noteq> 0"
  by (auto simp: driverResult_def Let_def split: if_splits)

lemma set_calculateSensitivity:
  "set (calculateSensitivity inputs v) =
     (\<Union>driver\<in>set SENSITIVITY_DRIVERS. set (driverResult inputs v driver))"
  by (simp add: calculateSensitivity_def)

lemma skipped_driver_absent:
  assumes "driver \<in> set SENSITIVITY_DRIVERS" and "getValue driver inputs = 0"
    and "r \<in> set (calculateSensitivity inputs v)"
  shows "driverKey r \<noteq> d_key driver"
proof
  assume eq: "driverKey r = d_key driver"
  from assms(3) obtain driver' where d': "driver' \<in> set SENSITIVITY_DRIVERS"
      "r \<in> set (driverResult inputs v driver')"
    by (auto simp: set_calculateSensitivity)
  from driverResult_key[OF d'(2)] have k: "driverKey r = d_key driver'"
    and nz: "getValue driver' inputs \<noteq> 0" by simp_all
  have "inj_on d_key (set SENSITIVITY_DRIVERS)"
    using driver_keys_distinct by (simp add: distinct_map)
  with eq k assms(1) d'(1) have "driver' = driver" by (simp add: inj_on_def)
  with nz assms(2) show False by simp
qed

text \<open>
  Claim C7. When the grand total passed to the breakdown functions is 0, every
  \<open>percentOfTotal\<close> of the phase breakdown and of the category breakdown is the number 0,
  not the undefined quotient by 0; when \<open>totalNominalCost\<close> is 0 the same holds of the
  breakdowns in the results and the monitoring cost share is the number 0; whatever the
  total, no percentage and no monitoring share is an undefined quotient; and
  \<open>calculateSensitivity\<close> returns no result for a driver whose base value is 0.
\<close>

theorem division_by_zero_guards:
  "(\<forall>s\<in>set (calculatePhaseBreakdown items 0). ps_percentOfTotal s = Some 0)
   \<and> (\<forall>s\<in>set (calculateCategoryBreakdown items 0). cs_percentOfTotal s = Some 0)
   \<and> (totalNominalCost (calculateClosureCosts inputs) = 0 \<longrightarrow>
        (\<forall>s\<in>set (phaseBreakdown (calculateClosureCosts inputs)). ps_percentOfTotal s = Some 0)
      \<and> (\<forall>s\<in>set (categoryBreakdown (calculateClosureCosts inputs)). cs_percentOfTotal s = Some 0)
      \<and> monitoringCostShare (calculateClosureCosts inputs) = Some 0)
   \<and> (\<forall>s\<in>set (calculatePhaseBreakdown items t). ps_percentOfTotal s \<noteq> None)
   \<and> (\<forall>s\<in>set (calculateCategoryBreakdown items t). cs_percentOfTotal s \<noteq> None)
   \<and> monitoringCostShare (calculateClosureCosts inputs) \<noteq> None
   \<and> (\<forall>driver\<in>set SENSITIVITY_DRIVERS. getValue driver inputs = 0 \<longrightarrow>
        (\<forall>r\<in>set (calculateSensitivity inputs v). driverKey r \<noteq> d_key driver))"
  using phaseBreakdown_zero_total categoryBreakdown_zero_total
    phaseBreakdown_finite categoryBreakdown_finite monitoringCostShare_finite
    closureCosts_monitoringCostShare skipped_driver_absent
  by (simp add: closureCosts_breakdowns)

lemma free_subtotals: "map subtotal (allLineItems freeInputs) = [0, 0, 0, 0, 0, 0, 0, 0, 0]"
  by code_simp

lemma sample_phase: "map (\<lambda>s. (ps_phase s, ps_totalCost s)) (calculatePhaseBreakdown [sampleItem] 0) =
   [(PlanningApprovals, 0), (DecommissioningDemolition, 5), (EarthworksLandform, 0), (TailingsWRDRehabilitation, 0),
    (WaterManagement, 0), (RevegetationEcosystem, 0), (MonitoringMaintenance, 0), (RelinquishmentPostClosure, 0)]"
  by code_simp

lemma sample_category: "map (\<lambda>s. (cs_category s, cs_totalCost s)) (calculateCategoryBreakdown [sampleItem] 0) =
   [(Mobilisation, 5)]"
  by code_simp

lemma example_sensitivity:
  "map (\<lambda>r. (driverKey r, lowTotalCost r, highTotalCost r))
     (calculateSensitivity exampleInputs 10) =
     [(''disturbedArea'', 3509, 3751), (''revegRate'', 3509, 3751),
      (''contingency'', 3597, 3663), (''earthworksRate'', 3630, 3630),
      (''discountRate'', 3630, 3630)]"
  by code_simp

lemma example_sensitivity_keys:
  "map driverKey (calculateSensitivity exampleInputs 10) =
     [''disturbedArea'', ''revegRate'', ''contingency'', ''earthworksRate'', ''discountRate'']"
proof -
  have "map driverKey (calculateSensitivity exampleInputs 10) =
      map fst (map (\<lambda>r. (driverKey r, lowTotalCost r, highTotalCost r))
                 (calculateSensitivity exampleInputs 10))"
    by simp
  then show ?thesis by (simp only: example_sensitivity) simp
qed


theorem division_by_zero_guards_witness:
  "ps_totalCost (calculatePhaseBreakdown [sampleItem] 0 ! 1) = 5
   \<and> ps_percentOfTotal (calculatePhaseBreakdown [sampleItem] 0 ! 1) = Some 0
   \<and> cs_totalCost (calculateCategoryBreakdown [sampleItem] 0 ! 0) = 5
   \<and> cs_percentOfTotal (calculateCategoryBreakdown [sampleItem] 0 ! 0) = Some 0
   \<and> totalNominalCost (calculateClosureCosts freeInputs) = 0
   \<and> monitoringCostShare (calculateClosureCosts freeInputs) = Some 0
   \<and> d_key (SENSITIVITY_DRIVERS ! 2) = ''tsfArea''
   \<and> getValue (SENSITIVITY_DRIVERS ! 2) exampleInputs = 0
   \<and> driverKey (calculateSensitivity exampleInputs 10 ! 0) = ''disturbedArea''
   \<and> driverKey (calculateSensitivity exampleInputs 10 ! 0) \<noteq> d_key (SENSITIVITY_DRIVERS ! 2)"
proof -
  let ?ps = "calculatePhaseBreakdown [sampleItem] 0"
  let ?cs = "calculateCategoryBreakdown [sampleItem] 0"
  let ?rs = "calculateSensitivity exampleInputs 10"
  let ?drv = "SENSITIVITY_DRIVERS ! 2"
  note guards = division_by_zero_guards[of "[sampleItem]" freeInputs 0 10]
  note skip = division_by_zero_guards[of "[sampleItem]" exampleInputs 0 10]
  have "length (map (\<lambda>s. (ps_phase s, ps_totalCost s)) ?ps) = 8"
    by (simp only: sample_phase) simp
  then have lp: "1 < length ?ps" by simp
  then have "map (\<lambda>s. (ps_phase s, ps_totalCost s)) ?ps ! 1 = (ps_phase (?ps ! 1), ps_totalCost (?ps ! 1))"
    by simp
  then have p1: "ps_totalCost (?ps ! 1) = 5" by (simp only: sample_phase) simp
  have p2: "ps_percentOfTotal (?ps ! 1) = Some 0" using guards lp by simp
  have "length (map (\<lambda>s. (cs_category s, cs_totalCost s)) ?cs) = 1"
    by (simp only: sample_category) simp
  then have lc: "0 < length ?cs" by simp
  then have "map (\<lambda>s. (cs_category s, cs_totalCost s)) ?cs ! 0 = (cs_category (?cs ! 0), cs_totalCost (?cs ! 0))"
    by simp
  then have c1: "cs_totalCost (?cs ! 0) = 5" by (simp only: sample_category) simp
  have c2: "cs_percentOfTotal (?cs ! 0) = Some 0" using guards lc by simp
  have t: "totalNominalCost (calculateClosureCosts freeInputs) = 0"
    by (simp add: closureCosts_totalNominalCost free_subtotals)
  have m: "monitoringCostShare (calculateClosureCosts freeInputs) = Some 0"
    using guards t by simp
  have dm: "?drv \<in> set SENSITIVITY_DRIVERS" by (simp add: SENSITIVITY_DRIVERS_def)
  have dk: "d_key ?drv = ''tsfArea''" by (simp add: SENSITIVITY_DRIVERS_def)
  have dv: "getValue ?drv exampleInputs = 0"
    by (simp add: SENSITIVITY_DRIVERS_def exampleInputs_def)
  have "length (map driverKey ?rs) = 5" by (simp only: example_sensitivity_keys) simp
  then have lr: "0 < length ?rs" by simp
  then have "map driverKey ?rs ! 0 = driverKey (?rs ! 0)" by simp
  then have r1: "driverKey (?rs ! 0) = ''disturbedArea''"
    by (simp only: example_sensitivity_keys) simp
  have r2: "driverKey (?rs ! 0) \<noteq> d_key ?drv"
    using skip dm dv lr by simp
  from p1 p2 c1 c2 t m dk dv r1 r2 show ?thesis by blast
qed

subsection \<open>Sensitivity analysis\<close>

lemma indirect_sum:
  "sum_list (map subtotal (calculateIndirectCosts t inputs (calculateDerivedQuantities inputs))) =
     t * (markup inputs - 1)"
  by (simp add: calculateIndirectCosts_def calculateDerivedQuantities_def Let_def markup_def
        field_simps)

lemma total_markup:
  "st_total (calculateTotalForSensitivity inputs) = directWorksTotal inputs * markup inputs"
  by (simp add: calculateTotalForSensitivity_def Let_def sumSubtotals_sum_list indirect_sum
        directWorksTotal_def algebra_simps)

lemma directWorksTotal_formula:
  "directWorksTotal inputs =
     (let q = quantities inputs; u = unitRates inputs;
          vol = (case earthworksVolumeM3Override q of
                   Some v \<Rightarrow> v
                 | None \<Rightarrow> tsfAreaHa q * 10000 * tsfCoverThicknessM q +
                           wrdFootprintHa q * 10000 * wrdReshapingDepthM q * bulkingFactor u);
          topsoil = disturbedAreaHa q * 10000 * topsoilThicknessM q
      in mobilisationLumpSum u
       + (if numberOfBuildings q > 0 then numberOfBuildings q * demolitionPerBuilding u else 0)
       + (if vol > 0 then vol * earthworksPerM3 u else 0)
       + (if topsoil > 0 then topsoil * topsoilPerM3 u else 0)
       + (if tsfAreaHa q > 0
          then tsfAreaHa q * 10000 *
               (cappingBasePerM2 u * (tsfCoverThicknessM q * cappingThicknessFactor u))
          else 0)
       + (if wrdFootprintHa q > 0
          then wrdFootprintHa q * 10000 *
               (cappingBasePerM2 u * (wrdReshapingDepthM q * cappingThicknessFactor u * (5 / 10)))
          else 0)
       + (if waterTreatmentDurationYears q > 0 \<and> waterTreatmentFlowMLPerDay q > 0
          then waterTreatmentCapex u * waterTreatmentIntensityFactor q +
               waterTreatmentFlowMLPerDay q * 365 * waterTreatmentOpexPerML u *
               waterTreatmentIntensityFactor q * waterTreatmentDurationYears q
          else 0)
       + (if disturbedAreaHa q > 0
          then disturbedAreaHa q * (revegetationPerHa u * revegetationComplexityFactor u)
          else 0)
       + (if disturbedAreaHa q > 0 then disturbedAreaHa q * erosionControlsPerHa u else 0)
       + (if roadLengthKm q > 0 then roadLengthKm q * roadRehabPerKm u else 0)
       + (if hazardousMaterialsEnabled q \<and> hazardousMaterialsAreaHa q > 0
          then hazardousMaterialsAreaHa q * hazardousMaterialsPerHa u else 0)
       + monitoringDurationYears q *
           getMonitoringRate (monitoringIntensity q) (monitoringPerYearLow u)
             (monitoringPerYearMedium u) (monitoringPerYearHigh u)
       + (if communityHeritageEnabled q then communityHeritageLumpSum u else 0))"
  unfolding directWorksTotal_def calculateDirectWorksCosts_def calculateDerivedQuantities_def
    Let_def haToM2_def sumSubtotals_sum_list
  by (simp add: if_distrib[of "map subtotal"] if_distrib[of sum_list] split del: if_split
        cong: if_cong)

lemma if_pos_mono:
  fixes x y r :: real
  assumes "x \<le> y" "0 \<le> r"
  shows "(if x > 0 then x * r else 0) \<le> (if y > 0 then y * r else 0)"
  using assms by (auto simp: mult_right_mono)

lemma direct_mono_disturbedArea:
  assumes "InputStateSchema i" "0 \<le> a" "a \<le> b"
  shows "directWorksTotal (i\<lparr>quantities := (quantities i)\<lparr>disturbedAreaHa := a\<rparr>\<rparr>)
       \<le> directWorksTotal (i\<lparr>quantities := (quantities i)\<lparr>disturbedAreaHa := b\<rparr>\<rparr>)"
proof -
  note q = quantities_nonneg[OF assms(1)] and u = unitRates_nonneg[OF assms(1)]
  have t1: "(if a * 10000 * topsoilThicknessM (quantities i) > 0
             then a * 10000 * topsoilThicknessM (quantities i) * topsoilPerM3 (unitRates i) else 0)
         \<le> (if b * 10000 * topsoilThicknessM (quantities i) > 0
             then b * 10000 * topsoilThicknessM (quantities i) * topsoilPerM3 (unitRates i) else 0)"
    using assms(3) q(6) u(4) by (intro if_pos_mono) (simp_all add: mult_right_mono)
  have t2: "(if a > 0 then a * (revegetationPerHa (unitRates i) * revegetationComplexityFactor (unitRates i)) else 0)
         \<le> (if b > 0 then b * (revegetationPerHa (unitRates i) * revegetationComplexityFactor (unitRates i)) else 0)"
    using assms(3) u(5,6) by (intro if_pos_mono) simp_all
  have t3: "(if a > 0 then a * erosionControlsPerHa (unitRates i) else 0)
         \<le> (if b > 0 then b * erosionControlsPerHa (unitRates i) else 0)"
    using assms(3) u(17) by (intro if_pos_mono) simp_all
  show ?thesis
    unfolding directWorksTotal_formula Let_def
    using t1 t2 t3
    by (simp split del: if_split cong del: if_weak_cong option.case_cong_weak)
qed


lemma if_same_mono:
  fixes x y :: real
  assumes "c \<Longrightarrow> x \<le> y"
  shows "(if c then x else 0) \<le> (if c then y else 0)"
  using assms by simp

lemma if_cond_mono:
  fixes x y :: real
  assumes "x \<le> y" "0 \<le> y" "c1 \<Longrightarrow> c2"
  shows "(if c1 then x else 0) \<le> (if c2 then y else 0)"
  using assms by auto

lemma direct_mono_earthworksRate:
  assumes "InputStateSchema i" "0 \<le> a" "a \<le> b"
  shows "directWorksTotal (i\<lparr>unitRates := (unitRates i)\<lparr>earthworksPerM3 := a\<rparr>\<rparr>)
       \<le> directWorksTotal (i\<lparr>unitRates := (unitRates i)\<lparr>earthworksPerM3 := b\<rparr>\<rparr>)"
proof -
  have t: "(if v > 0 then v * a else 0) \<le> (if v > 0 then v * b else 0)" for v :: real
    using assms(3) by (intro if_same_mono) (simp add: mult_left_mono)
  show ?thesis
    unfolding directWorksTotal_formula Let_def
    using t
    by (simp split del: if_split cong del: if_weak_cong option.case_cong_weak)
qed

lemma direct_mono_revegRate:
  assumes "InputStateSchema i" "0 \<le> a" "a \<le> b"
  shows "directWorksTotal (i\<lparr>unitRates := (unitRates i)\<lparr>revegetationPerHa := a\<rparr>\<rparr>)
       \<le> directWorksTotal (i\<lparr>unitRates := (unitRates i)\<lparr>revegetationPerHa := b\<rparr>\<rparr>)"
proof -
  note u = unitRates_nonneg[OF assms(1)]
  have t: "(if disturbedAreaHa (quantities i) > 0
            then disturbedAreaHa (quantities i) * (a * revegetationComplexityFactor (unitRates i)) else 0)
        \<le> (if disturbedAreaHa (quantities i) > 0
            then disturbedAreaHa (quantities i) * (b * revegetationComplexityFactor (unitRates i)) else 0)"
    using assms(3) u(6) by (intro if_same_mono) (simp add: mult_left_mono mult_right_mono)
  show ?thesis
    unfolding directWorksTotal_formula Let_def
    using t
    by (simp split del: if_split cong del: if_weak_cong option.case_cong_weak)
qed

lemma direct_mono_waterDuration:
  assumes "InputStateSchema i" "0 \<le> a" "a \<le> b"
  shows "directWorksTotal (i\<lparr>quantities := (quantities i)\<lparr>waterTreatmentDurationYears := a\<rparr>\<rparr>)
       \<le> directWorksTotal (i\<lparr>quantities := (quantities i)\<lparr>waterTreatmentDurationYears := b\<rparr>\<rparr>)"
proof -
  note q = quantities_nonneg[OF assms(1)] and u = unitRates_nonneg[OF assms(1)]
  let ?x = "waterTreatmentCapex (unitRates i) * waterTreatmentIntensityFactor (quantities i)"
  let ?o = "waterTreatmentFlowMLPerDay (quantities i) * 365 * waterTreatmentOpexPerML (unitRates i) *
               waterTreatmentIntensityFactor (quantities i)"
  have x0: "0 \<le> ?x" using q(11) u(9) by simp
  have o0: "0 \<le> ?o" using q(9,11) u(10) by simp
  have ob: "0 \<le> ?o * b" using o0 assms(2,3) by simp
  have oab: "?o * a \<le> ?o * b" using o0 assms(3) by (rule mult_left_mono[rotated])
  have t: "(if a > 0 \<and> waterTreatmentFlowMLPerDay (quantities i) > 0 then ?x + ?o * a else 0)
        \<le> (if b > 0 \<and> waterTreatmentFlowMLPerDay (quantities i) > 0 then ?x + ?o * b else 0)"
  proof (rule if_cond_mono)
    show "?x + ?o * a \<le> ?x + ?o * b" by (intro add_left_mono oab)
    show "0 \<le> ?x + ?o * b" by (intro add_nonneg_nonneg x0 ob)
    show "b > 0 \<and> waterTreatmentFlowMLPerDay (quantities i) > 0"
      if "a > 0 \<and> waterTreatmentFlowMLPerDay (quantities i) > 0"
      using that assms(3) by simp
  qed
  show ?thesis
    unfolding directWorksTotal_formula Let_def
    using t
    by (simp split del: if_split cong del: if_weak_cong option.case_cong_weak)
qed


lemma volume_mono:
  fixes x y :: real
  assumes "x \<le> y"
  shows "(case ov of None \<Rightarrow> x + w | Some v \<Rightarrow> v) \<le> (case ov of None \<Rightarrow> y + w | Some v \<Rightarrow> v)"
  using assms by (cases ov) simp_all

lemma direct_mono_tsfArea:
  assumes "InputStateSchema i" "0 \<le> a" "a \<le> b"
  shows "directWorksTotal (i\<lparr>quantities := (quantities i)\<lparr>tsfAreaHa := a\<rparr>\<rparr>)
       \<le> directWorksTotal (i\<lparr>quantities := (quantities i)\<lparr>tsfAreaHa := b\<rparr>\<rparr>)"
proof -
  note q = quantities_nonneg[OF assms(1)] and u = unitRates_nonneg[OF assms(1)]
  let ?th = "tsfCoverThicknessM (quantities i)"
  let ?w = "wrdFootprintHa (quantities i) * 10000 * wrdReshapingDepthM (quantities i) *
              bulkingFactor (unitRates i)"
  let ?vol = "\<lambda>x. case earthworksVolumeM3Override (quantities i) of
                   None \<Rightarrow> x * 10000 * ?th + ?w | Some v \<Rightarrow> v"
  let ?r = "cappingBasePerM2 (unitRates i) * (?th * cappingThicknessFactor (unitRates i))"
  have "a * 10000 * ?th \<le> b * 10000 * ?th" using assms(3) q(3) by (simp add: mult_right_mono)
  then have "?vol a \<le> ?vol b" by (rule volume_mono)
  then have t1: "(if ?vol a > 0 then ?vol a * earthworksPerM3 (unitRates i) else 0)
        \<le> (if ?vol b > 0 then ?vol b * earthworksPerM3 (unitRates i) else 0)"
    using u(1) by (rule if_pos_mono)
  have r0: "0 \<le> ?r" using q(3) u(2,3) by simp
  have "a * 10000 \<le> b * 10000" using assms(3) by simp
  then have "a * 10000 * ?r \<le> b * 10000 * ?r" using r0 by (rule mult_right_mono)
  moreover have "0 \<le> b * 10000 * ?r" using r0 assms(2,3) by simp
  ultimately have t2: "(if a > 0 then a * 10000 * ?r else 0) \<le> (if b > 0 then b * 10000 * ?r else 0)"
    using assms(3) by (intro if_cond_mono) simp_all
  show ?thesis
    unfolding directWorksTotal_formula Let_def
    using t1 t2
    by (simp split del: if_split cong del: if_weak_cong option.case_cong_weak)
qed

lemma direct_mono_tsfThickness:
  assumes "InputStateSchema i" "0 \<le> a" "a \<le> b"
  shows "directWorksTotal (i\<lparr>quantities := (quantities i)\<lparr>tsfCoverThicknessM := a\<rparr>\<rparr>)
       \<le> directWorksTotal (i\<lparr>quantities := (quantities i)\<lparr>tsfCoverThicknessM := b\<rparr>\<rparr>)"
proof -
  note q = quantities_nonneg[OF assms(1)] and u = unitRates_nonneg[OF assms(1)]
  let ?ar = "tsfAreaHa (quantities i)"
  let ?w = "wrdFootprintHa (quantities i) * 10000 * wrdReshapingDepthM (quantities i) *
              bulkingFactor (unitRates i)"
  let ?vol = "\<lambda>x. case earthworksVolumeM3Override (quantities i) of
                   None \<Rightarrow> ?ar * 10000 * x + ?w | Some v \<Rightarrow> v"
  let ?r = "\<lambda>x. cappingBasePerM2 (unitRates i) * (x * cappingThicknessFactor (unitRates i))"
  have "?ar * 10000 * a \<le> ?ar * 10000 * b" using assms(3) q(2) by (simp add: mult_left_mono)
  then have "?vol a \<le> ?vol b" by (rule volume_mono)
  then have t1: "(if ?vol a > 0 then ?vol a * earthworksPerM3 (unitRates i) else 0)
        \<le> (if ?vol b > 0 then ?vol b * earthworksPerM3 (unitRates i) else 0)"
    using u(1) by (rule if_pos_mono)
  have "a * cappingThicknessFactor (unitRates i) \<le> b * cappingThicknessFactor (unitRates i)"
    using assms(3) u(3) by (rule mult_right_mono)
  then have "?r a \<le> ?r b" using u(2) by (rule mult_left_mono)
  moreover have "0 \<le> ?ar * 10000" using q(2) by simp
  ultimately have "?ar * 10000 * ?r a \<le> ?ar * 10000 * ?r b"
    by (rule mult_left_mono)
  then have t2: "(if ?ar > 0 then ?ar * 10000 * ?r a else 0) \<le> (if ?ar > 0 then ?ar * 10000 * ?r b else 0)"
    by (intro if_same_mono)
  show ?thesis
    unfolding directWorksTotal_formula Let_def
    using t1 t2
    by (simp split del: if_split cong del: if_weak_cong option.case_cong_weak)
qed

lemma markup_ge_one:
  assumes "InputStateSchema i"
  shows "1 \<le> markup i"
proof -
  note r = indirectRates_nonneg[OF assms]
  have u: "0 \<le> riskScoreToUplift (calculateRiskScore (riskFactors i))"
    using assms by (simp add: InputStateSchema_def riskScoreToUplift_nonneg riskScore_nonneg)
  have a: "1 \<le> 1 + siteEstablishmentPercent (indirectRates i) / 100" using r(1) by simp
  have b: "1 \<le> 1 + contractorMarginPercent (indirectRates i) / 100" using r(2) by simp
  have c: "1 \<le> 1 + contingencyPercent (indirectRates i) / 100 +
      riskScoreToUplift (calculateRiskScore (riskFactors i)) / 100" using r(3) u by simp
  have d: "1 \<le> 1 + ownersCostsPercent (indirectRates i) / 100" using r(4) by simp
  have "1 * 1 * 1 * 1 \<le> markup i"
    unfolding markup_def using a b c d by (intro mult_mono) simp_all
  then show ?thesis by simp
qed

lemma directWorksTotal_nonneg: "InputStateSchema i \<Longrightarrow> 0 \<le> directWorksTotal i"
  using direct_nonneg[of i]
  by (simp add: directWorksTotal_def sumSubtotals_sum_list sum_list_nonneg_subtotals)

lemma markup_mono_contingency:
  assumes "InputStateSchema i" "0 \<le> a" "a \<le> b"
  shows "markup (i\<lparr>indirectRates := (indirectRates i)\<lparr>contingencyPercent := a\<rparr>\<rparr>)
       \<le> markup (i\<lparr>indirectRates := (indirectRates i)\<lparr>contingencyPercent := b\<rparr>\<rparr>)"
proof -
  note r = indirectRates_nonneg[OF assms(1)]
  have u: "0 \<le> riskScoreToUplift (calculateRiskScore (riskFactors i))"
    using assms(1) by (simp add: InputStateSchema_def riskScoreToUplift_nonneg riskScore_nonneg)
  let ?x = "(1 + siteEstablishmentPercent (indirectRates i) / 100) *
     (1 + contractorMarginPercent (indirectRates i) / 100)"
  let ?u = "riskScoreToUplift (calculateRiskScore (riskFactors i)) / 100"
  let ?o = "1 + ownersCostsPercent (indirectRates i) / 100"
  have x0: "0 \<le> ?x" using r(1,2) by simp
  have o0: "0 \<le> ?o" using r(4) by simp
  have "1 + a / 100 + ?u \<le> 1 + b / 100 + ?u" using assms(3) by simp
  then have "?x * (1 + a / 100 + ?u) \<le> ?x * (1 + b / 100 + ?u)" using x0 by (rule mult_left_mono)
  then have "?x * (1 + a / 100 + ?u) * ?o \<le> ?x * (1 + b / 100 + ?u) * ?o"
    using o0 by (rule mult_right_mono)
  then show ?thesis by (simp add: markup_def)
qed

lemma directWorksTotal_indirectRates [simp]:
  "directWorksTotal (i\<lparr>indirectRates := r\<rparr>) = directWorksTotal i"
  unfolding directWorksTotal_formula Let_def
  by (simp split del: if_split cong del: if_weak_cong option.case_cong_weak)

lemma directWorksTotal_financialParams [simp]:
  "directWorksTotal (i\<lparr>financialParams := fp\<rparr>) = directWorksTotal i"
  unfolding directWorksTotal_formula Let_def
  by (simp split del: if_split cong del: if_weak_cong option.case_cong_weak)

lemma markup_other_fields [simp]:
  "markup (i\<lparr>quantities := q\<rparr>) = markup i"
  "markup (i\<lparr>unitRates := u\<rparr>) = markup i"
  "markup (i\<lparr>financialParams := fp\<rparr>) = markup i"
  by (simp_all add: markup_def)

lemma total_mono_direct:
  assumes "InputStateSchema i" "directWorksTotal j \<le> directWorksTotal k"
    "markup j = markup i" "markup k = markup i"
  shows "st_total (calculateTotalForSensitivity j) \<le> st_total (calculateTotalForSensitivity k)"
proof -
  have "0 \<le> markup i" using markup_ge_one[OF assms(1)] by simp
  with assms(2) show ?thesis by (simp add: total_markup assms(3,4) mult_right_mono)
qed

lemma drivers_mono:
  assumes "InputStateSchema i" "0 \<le> a" "a \<le> b"
  shows "\<forall>driver\<in>set SENSITIVITY_DRIVERS.
           st_total (calculateTotalForSensitivity (setValue driver i a))
             \<le> st_total (calculateTotalForSensitivity (setValue driver i b))"
proof -
  note d = directWorksTotal_nonneg[OF assms(1)]
  have c: "st_total (calculateTotalForSensitivity
                (i\<lparr>indirectRates := (indirectRates i)\<lparr>contingencyPercent := a\<rparr>\<rparr>))
         \<le> st_total (calculateTotalForSensitivity
                (i\<lparr>indirectRates := (indirectRates i)\<lparr>contingencyPercent := b\<rparr>\<rparr>))"
    using markup_mono_contingency[OF assms] d by (simp add: total_markup mult_left_mono)
  have f: "st_total (calculateTotalForSensitivity
                (i\<lparr>financialParams := (financialParams i)\<lparr>discountRatePercent := a\<rparr>\<rparr>))
         \<le> st_total (calculateTotalForSensitivity
                (i\<lparr>financialParams := (financialParams i)\<lparr>discountRatePercent := b\<rparr>\<rparr>))"
    by (simp add: total_markup)
  note m = total_mono_direct[OF assms(1) direct_mono_disturbedArea[OF assms]]
    total_mono_direct[OF assms(1) direct_mono_earthworksRate[OF assms]]
    total_mono_direct[OF assms(1) direct_mono_tsfArea[OF assms]]
    total_mono_direct[OF assms(1) direct_mono_tsfThickness[OF assms]]
    total_mono_direct[OF assms(1) direct_mono_waterDuration[OF assms]]
    total_mono_direct[OF assms(1) direct_mono_revegRate[OF assms]]
  show ?thesis
    unfolding SENSITIVITY_DRIVERS_def using c f m by simp
qed

lemma driver_base_nonneg:
  assumes "InputStateSchema i"
  shows "\<forall>driver\<in>set SENSITIVITY_DRIVERS. 0 \<le> getValue driver i"
  unfolding SENSITIVITY_DRIVERS_def
  using quantities_nonneg[OF assms] unitRates_nonneg[OF assms] indirectRates_nonneg[OF assms]
    schema_rates_nonneg[OF assms]
  by simp

text \<open>
  Claim C8. For every valid input, every result of \<open>calculateSensitivity\<close> at the
  default variation of 10 % has \<open>lowTotalCost \<le> highTotalCost\<close>.
\<close>

theorem sensitivity_low_le_high:
  assumes "InputStateSchema inputs"
  shows "\<forall>r\<in>set (calculateSensitivity inputs 10). lowTotalCost r \<le> highTotalCost r"
proof
  fix r assume "r \<in> set (calculateSensitivity inputs 10)"
  then obtain driver where drv: "driver \<in> set SENSITIVITY_DRIVERS"
      and r: "r \<in> set (driverResult inputs 10 driver)"
    by (auto simp: set_calculateSensitivity)
  let ?base = "getValue driver inputs"
  have b0: "0 \<le> ?base" using driver_base_nonneg[OF assms] drv by blast
  have lo: "0 \<le> ?base * (1 - 10 / 100)" using b0 by simp
  have lh: "?base * (1 - 10 / 100) \<le> ?base * (1 + 10 / 100)" using b0 by simp
  from drivers_mono[OF assms lo lh] drv
  have "st_total (calculateTotalForSensitivity (setValue driver inputs (?base * (1 - 10 / 100))))
      \<le> st_total (calculateTotalForSensitivity (setValue driver inputs (?base * (1 + 10 / 100))))"
    by blast
  moreover from r have "lowTotalCost r =
        st_total (calculateTotalForSensitivity (setValue driver inputs (?base * (1 - 10 / 100))))
      \<and> highTotalCost r =
        st_total (calculateTotalForSensitivity (setValue driver inputs (?base * (1 + 10 / 100))))"
    by (auto simp: driverResult_def Let_def split: if_splits)
  ultimately show "lowTotalCost r \<le> highTotalCost r" by simp
qed


theorem sensitivity_low_le_high_witness:
  "InputStateSchema exampleInputs
   \<and> lowTotalCost (calculateSensitivity exampleInputs 10 ! 0) = 3509
   \<and> highTotalCost (calculateSensitivity exampleInputs 10 ! 0) = 3751
   \<and> lowTotalCost (calculateSensitivity exampleInputs 10 ! 0)
       \<le> highTotalCost (calculateSensitivity exampleInputs 10 ! 0)"
proof -
  let ?rs = "calculateSensitivity exampleInputs 10"
  have "length (map (\<lambda>r. (driverKey r, lowTotalCost r, highTotalCost r)) ?rs) = 5"
    by (simp only: example_sensitivity) simp
  then have len: "0 < length ?rs" by simp
  then have "map (\<lambda>r. (driverKey r, lowTotalCost r, highTotalCost r)) ?rs ! 0 =
      (driverKey (?rs ! 0), lowTotalCost (?rs ! 0), highTotalCost (?rs ! 0))"
    by simp
  then have v: "lowTotalCost (?rs ! 0) = 3509" "highTotalCost (?rs ! 0) = 3751"
    by (simp_all only: example_sensitivity) simp_all
  have "?rs ! 0 \<in> set ?rs" using len by simp
  with sensitivity_low_le_high[OF exampleInputs_valid]
  have "lowTotalCost (?rs ! 0) \<le> highTotalCost (?rs ! 0)" by blast
  with v exampleInputs_valid show ?thesis by blast
qed

end
